theory Spec2Isabelle
  imports Main "HOL-Library.AList"
begin

section \<open>Exceptions and effectful code\<close>

text \<open>
  Python exceptions are values. Every constructor stands for a subclass of
  \<^verbatim>\<open>Exception\<close> and carries the text that \<^verbatim>\<open>str(e)\<close> yields (the texts of
  the interpreter's own messages are written without their quotation marks).
\<close>

datatype exn =
    TypeError string
  | AttributeError string
  | IntegrityError string
  | GaiError string
  | ConnectionRefusedError string
  | ConnectionResetError string
  | TimeoutError string
  | OSError string
  | IndexError string
  | ValueError string
  | Exception string

fun str :: "exn \<Rightarrow> string" where
  "str (TypeError m) = m"
| "str (AttributeError m) = m"
| "str (IntegrityError m) = m"
| "str (GaiError m) = m"
| "str (ConnectionRefusedError m) = m"
| "str (ConnectionResetError m) = m"
| "str (TimeoutError m) = m"
| "str (OSError m) = m"
| "str (IndexError m) = m"
| "str (ValueError m) = m"
| "str (Exception m) = m"

text \<open>
  A piece of code that reads and writes a state \<open>'s\<close> and either returns a value or
  raises: it maps the state before to the state after and the outcome
  (\<open>Inl\<close> the exception raised, \<open>Inr\<close> the value returned). What was written before
  an exception is raised stays written.
\<close>

type_synonym ('s, 'a) action = "'s \<Rightarrow> 's \<times> (exn + 'a)"

definition returns :: "'a \<Rightarrow> ('s, 'a) action" where
  "returns v s = (s, Inr v)"

definition raises :: "exn \<Rightarrow> ('s, 'a) action" where
  "raises e s = (s, Inl e)"

definition lift :: "exn + 'a \<Rightarrow> ('s, 'a) action" where
  "lift r s = (s, r)"

definition store :: "('s \<Rightarrow> 's) \<Rightarrow> ('s, unit) action" where
  "store f s = (f s, Inr ())"

text \<open>Sequencing: the second statement runs only when the first one returns.\<close>

definition then_do :: "('s, 'a) action \<Rightarrow> ('a \<Rightarrow> ('s, 'b) action) \<Rightarrow> ('s, 'b) action" where
  "then_do m f s = (case m s of (s', Inl e) \<Rightarrow> (s', Inl e) | (s', Inr v) \<Rightarrow> f v s')"

text \<open>\<^verbatim>\<open>try: m  except [Exception as e]: h e\<close>\<close>

definition try_except :: "('s, 'a) action \<Rightarrow> (exn \<Rightarrow> ('s, 'a) action) \<Rightarrow> ('s, 'a) action" where
  "try_except m h s = (case m s of (s', Inl e) \<Rightarrow> h e s' | (s', Inr v) \<Rightarrow> (s', Inr v))"

text \<open>
  \<^verbatim>\<open>await asyncio.gather(*tasks)\<close>. The tasks are started in the order of the
  argument list (\<open>run_all\<close>). They finish in some order \<open>completion\<close>, a list of
  positions in the argument list. The first task to finish with an exception makes
  \<open>gather\<close> raise it; when every task returns, \<open>gather\<close> returns the values arranged
  by position in the argument list.
\<close>

fun run_all :: "('s, 'a) action list \<Rightarrow> 's \<Rightarrow> 's \<times> (exn + 'a) list" where
  "run_all [] s = (s, [])"
| "run_all (t # ts) s =
     (case t s of (s', r) \<Rightarrow> (case run_all ts s' of (s'', rs) \<Rightarrow> (s'', r # rs)))"

definition gather :: "nat list \<Rightarrow> ('s, 'a) action list \<Rightarrow> ('s, 'a list) action" where
  "gather completion tasks s =
     (case run_all tasks s of
        (s', outcomes) \<Rightarrow>
          (let finished = map (\<lambda>i. (i, outcomes ! i)) completion
           in case [e. (i, Inl e) \<leftarrow> finished] of
                e # _ \<Rightarrow> (s', Inl e)
              | [] \<Rightarrow> (s', Inr [v. (i, Inr v) \<leftarrow> sort_key fst finished])))"

text \<open>
  A completion order of \<open>n\<close> tasks: every position \<open>0..<n\<close> exactly once.
\<close>

definition completion_order :: "nat \<Rightarrow> nat list \<Rightarrow> bool" where
  "completion_order n completion \<longleftrightarrow> distinct completion \<and> set completion = {0..<n}"

section \<open>Text\<close>

text \<open>
  Python text is modelled by \<^typ>\<open>string\<close>, a character standing for the code point of
  the same number. \<^verbatim>\<open>str.strip()\<close> removes the white space at both ends: the code
  points 9 to 13, 28 to 32, 133 and 160 in this range.
\<close>

definition isspace :: "char \<Rightarrow> bool" where
  "isspace c \<longleftrightarrow> (of_char c :: nat) \<in> {9, 10, 11, 12, 13, 28, 29, 30, 31, 32, 133, 160}"

definition strip :: "string \<Rightarrow> string" where
  "strip s = rev (dropWhile isspace (rev (dropWhile isspace s)))"

section \<open>modules/network\_intel.py\<close>

text \<open>
  The network as the module sees it. \<open>gethostbyname\<close> is \<^verbatim>\<open>socket.gethostbyname\<close>.
  \<open>open_connection host port\<close> is the outcome of
  \<^verbatim>\<open>asyncio.wait_for(asyncio.open_connection(host, port), timeout=self.timeout)\<close>:
  the exception raised (refused, unreachable, \<open>TimeoutError\<close> at the deadline of 2) or
  the connection. On a connection, \<open>read_1024\<close> is the outcome of
  \<^verbatim>\<open>asyncio.wait_for(reader.read(1024), timeout=1)\<close>: the exception raised
  (a reset, \<open>TimeoutError\<close> at the deadline of 1) or the text that
  \<^verbatim>\<open>decode('utf-8', errors='ignore')\<close> makes of the bytes read (decoding with errors
  ignored never raises, and no bytes decode to the empty text). \<open>wait_closed\<close> is the
  outcome of \<^verbatim>\<open>writer.close(); await writer.wait_closed()\<close>.
\<close>

record connection =
  read_1024 :: "exn + string"
  wait_closed :: "exn + unit"

record network =
  gethostbyname :: "string \<Rightarrow> exn + string"
  open_connection :: "string \<Rightarrow> int \<Rightarrow> exn + connection"

text \<open>The state of the module's code: the connections attempted so far, oldest first.\<close>

type_synonym probe_log = "(string \<times> int) list"

definition connect :: "network \<Rightarrow> string \<Rightarrow> int \<Rightarrow> (probe_log, connection) action" where
  "connect net host port log = (log @ [(host, port)], open_connection net host port)"

record network_results =
  target :: string
  timestamp :: string
  open_ports :: "int list"
  closed_ports :: "int list"
  services :: "(int \<times> string) list"
  banners :: "(int \<times> string) list"
  ip_address :: "string option"
  error :: "string option"

text \<open>\<^verbatim>\<open>self.common_ports\<close> (\<^verbatim>\<open>__init__\<close>).\<close>

definition common_ports :: "int list" where
  "common_ports =
     [21, 22, 23, 25, 53, 80, 110, 143, 443, 465, 587, 993, 995,
      3306, 3389, 5432, 5900, 8080, 8443, 27017]"

text \<open>\<^verbatim>\<open>_identify_service\<close>: \<^verbatim>\<open>services.get(port, "Unknown")\<close>.\<close>

definition service_table :: "(int \<times> string) list" where
  "service_table =
     [(21, ''FTP''), (22, ''SSH''), (23, ''Telnet''), (25, ''SMTP''), (53, ''DNS''),
      (80, ''HTTP''), (110, ''POP3''), (143, ''IMAP''), (443, ''HTTPS''), (465, ''SMTPS''),
      (587, ''SMTP (Submission)''), (993, ''IMAPS''), (995, ''POP3S''), (3306, ''MySQL''),
      (3389, ''RDP''), (5432, ''PostgreSQL''), (5900, ''VNC''), (8080, ''HTTP-Proxy''),
      (8443, ''HTTPS-Alt''), (27017, ''MongoDB'')]"

definition identify_service :: "int \<Rightarrow> string" where
  "identify_service port =
     (case map_of service_table port of Some label \<Rightarrow> label | None \<Rightarrow> ''Unknown'')"

text \<open>
  \<^verbatim>\<open>_scan_port\<close>: the tuple \<^verbatim>\<open>(port, is_open, banner)\<close>. The inner handler leaves
  \<^verbatim>\<open>banner = None\<close>; the outer handler covers the connection attempt, and the closing
  of the connection as well.
\<close>

definition scan_port ::
  "network \<Rightarrow> string \<Rightarrow> int \<Rightarrow> (probe_log, int \<times> bool \<times> string option) action" where
  "scan_port net host port =
     try_except
       (then_do (connect net host port) (\<lambda>conn.
        then_do (try_except
                   (then_do (lift (read_1024 conn)) (\<lambda>banner_data.
                    returns (Some (strip banner_data))))
                   (\<lambda>e. returns None)) (\<lambda>banner.
        then_do (lift (wait_closed conn)) (\<lambda>_.
        returns (port, True, banner)))))
       (\<lambda>e. returns (port, False, None))"

text \<open>
  The loop of \<^verbatim>\<open>scan\<close> over \<^verbatim>\<open>port_results\<close>. \<^verbatim>\<open>if banner:\<close> holds for a banner
  that is neither \<^verbatim>\<open>None\<close> nor the empty text. \<^verbatim>\<open>d[k] = v\<close> on a dictionary is
  \<open>AList.update\<close>: a new key goes last, a key already there keeps its place.
\<close>

fun classify ::
  "network_results \<Rightarrow> (int \<times> bool \<times> string option) list \<Rightarrow> network_results" where
  "classify results [] = results"
| "classify results ((port, is_open, banner) # rest) =
     classify
       (if is_open then
          (let results1 = results\<lparr>open_ports := open_ports results @ [port]\<rparr>;
               service = identify_service port;
               results2 = results1\<lparr>services := AList.update port service (services results1)\<rparr>
           in case banner of
                None \<Rightarrow> results2
              | Some b \<Rightarrow>
                  if b \<noteq> [] then results2\<lparr>banners := AList.update port b (banners results2)\<rparr>
                  else results2)
        else results\<lparr>closed_ports := closed_ports results @ [port]\<rparr>)
       rest"

text \<open>
  \<^verbatim>\<open>scan\<close>. \<open>now\<close> is the reading of \<^verbatim>\<open>datetime.utcnow().isoformat()\<close>, \<open>completion\<close>
  the order in which the port probes finish.
\<close>

definition scan ::
  "network \<Rightarrow> string \<Rightarrow> nat list \<Rightarrow> string \<Rightarrow> (probe_log, network_results) action" where
  "scan net now completion tgt =
     (let results = \<lparr>target = tgt, timestamp = now, open_ports = [], closed_ports = [],
                      services = [], banners = [], ip_address = None, error = None\<rparr>
      in case gethostbyname net tgt of
           Inl e \<Rightarrow>
             returns (results\<lparr>error := Some (''Could not resolve hostname: '' @ str e)\<rparr>)
         | Inr ip \<Rightarrow>
             (let results' = results\<lparr>ip_address := Some ip\<rparr>;
                  tasks = map (scan_port net ip) common_ports
              in then_do (gather completion tasks) (\<lambda>port_results.
                 returns (classify results' port_results))))"


text \<open>
  The tuple a call of \<^verbatim>\<open>_scan_port\<close> returns (\<open>projr\<close> reads the value of an
  outcome that is not an exception).
\<close>

definition probe :: "network \<Rightarrow> string \<Rightarrow> int \<Rightarrow> int \<times> bool \<times> string option" where
  "probe net host port = projr (snd (scan_port net host port []))"

section \<open>JSON values\<close>

text \<open>What \<^verbatim>\<open>json.loads\<close> returns.\<close>

datatype json =
    JNull
  | JBool bool
  | JInt int
  | JStr string
  | JList "json list"
  | JDict "(string \<times> json) list"

section \<open>modules/database.py\<close>

text \<open>
  A row of table \<^verbatim>\<open>scans\<close>; column \<^verbatim>\<open>target\<close> is \<open>scan_target\<close>. A column the
  \<^verbatim>\<open>INSERT\<close> does not name is \<^verbatim>\<open>NULL\<close>, here \<open>None\<close>. The columns \<^verbatim>\<open>results\<close>
  and \<^verbatim>\<open>analysis\<close> are \<^verbatim>\<open>TEXT\<close>.
\<close>

record scan_row =
  scan_id :: string
  scan_target :: string
  scan_type :: string
  status :: string
  created_at :: string
  completed_at :: "string option"
  results :: "string option"
  analysis :: "string option"

text \<open>
  The \<^verbatim>\<open>Database\<close> object: \<^verbatim>\<open>self.conn\<close> is \<^verbatim>\<open>None\<close> until \<^verbatim>\<open>initialize\<close> has
  run, then the connection, here the rows of \<^verbatim>\<open>scans\<close> in insertion order. The store
  itself is taken to work: an SQL statement fails only for a primary key that is
  already there.
\<close>

record database =
  conn :: "scan_row list option"

definition cursor :: "(database, scan_row list) action" where
  "cursor db =
     (case conn db of
        None \<Rightarrow> (db, Inl (AttributeError ''NoneType object has no attribute cursor''))
      | Some rows \<Rightarrow> (db, Inr rows))"

text \<open>\<^verbatim>\<open>create_scan\<close>; \<open>new_id\<close> is \<^verbatim>\<open>str(uuid.uuid4())\<close>, \<open>now\<close> the clock.\<close>

definition create_scan ::
  "string \<Rightarrow> string \<Rightarrow> string \<Rightarrow> string \<Rightarrow> (database, string) action" where
  "create_scan new_id now tgt stype =
     then_do cursor (\<lambda>rows.
       if new_id \<in> scan_id ` set rows
       then raises (IntegrityError ''UNIQUE constraint failed: scans.scan_id'')
       else then_do
              (store (\<lambda>db. db\<lparr>conn := Some (rows @
                 [\<lparr>scan_id = new_id, scan_target = tgt, scan_type = stype,
                   status = ''running'', created_at = now, completed_at = None,
                   results = None, analysis = None\<rparr>])\<rparr>))
              (\<lambda>_. returns new_id))"

text \<open>
  \<^verbatim>\<open>save_results\<close>. \<open>dumps_results\<close> and \<open>dumps_analysis\<close> are \<^verbatim>\<open>json.dumps\<close> on
  the result map and on the analysis: the text, or the exception that
  \<^verbatim>\<open>json.dumps\<close> raises on a value it cannot serialise. Both are evaluated, in this
  order, after the cursor is taken and before the \<^verbatim>\<open>UPDATE\<close> of the rows with this
  \<^verbatim>\<open>scan_id\<close> runs.
\<close>

definition save_results ::
  "('r \<Rightarrow> exn + string) \<Rightarrow> ('a \<Rightarrow> exn + string) \<Rightarrow> string \<Rightarrow> string \<Rightarrow> 'r \<Rightarrow> 'a
   \<Rightarrow> (database, unit) action" where
  "save_results dumps_results dumps_analysis now sid res ana =
     then_do cursor (\<lambda>rows.
     then_do (lift (dumps_results res)) (\<lambda>res_text.
     then_do (lift (dumps_analysis ana)) (\<lambda>ana_text.
     store (\<lambda>db. db\<lparr>conn := Some (map (\<lambda>row.
       if scan_id row = sid
       then row\<lparr>status := ''completed'', completed_at := Some now,
                 results := Some res_text, analysis := Some ana_text\<rparr>
       else row) rows)\<rparr>))))"

text \<open>
  \<^verbatim>\<open>get_scan\<close>: the dictionary made of the row that \<^verbatim>\<open>fetchone\<close> yields, or
  \<^verbatim>\<open>None\<close>. \<open>loads\<close> is \<^verbatim>\<open>json.loads\<close>. A column that is \<^verbatim>\<open>NULL\<close> or the empty
  text gives the empty dictionary (\<^verbatim>\<open>json.loads(text) if text else {}\<close>).
\<close>

datatype scan_dict =
  ScanDict
    (dict_scan_id: string)
    (dict_target: string)
    (dict_scan_type: string)
    (dict_status: string)
    (dict_created_at: string)
    (dict_completed_at: "string option")
    (dict_results: json)
    (dict_analysis: json)

definition loads_column :: "(string \<Rightarrow> exn + json) \<Rightarrow> string option \<Rightarrow> exn + json" where
  "loads_column loads column =
     (case column of
        None \<Rightarrow> Inr (JDict [])
      | Some text \<Rightarrow> if text = [] then Inr (JDict []) else loads text)"

definition get_scan ::
  "(string \<Rightarrow> exn + json) \<Rightarrow> string \<Rightarrow> (database, scan_dict option) action" where
  "get_scan loads sid =
     then_do cursor (\<lambda>rows.
       case find (\<lambda>row. scan_id row = sid) rows of
         None \<Rightarrow> returns None
       | Some row \<Rightarrow>
           then_do (lift (loads_column loads (results row))) (\<lambda>res.
           then_do (lift (loads_column loads (analysis row))) (\<lambda>ana.
           returns (Some (ScanDict (scan_id row) (scan_target row) (scan_type row)
             (status row) (created_at row) (completed_at row) res ana)))))"

text \<open>
  The status a reader of table \<^verbatim>\<open>scans\<close> sees for a scan
  (\<^verbatim>\<open>SELECT status FROM scans WHERE scan_id = ?\<close>), if the scan is there.
\<close>

definition status_of :: "string \<Rightarrow> database \<Rightarrow> string option" where
  "status_of sid db =
     (case conn db of
        None \<Rightarrow> None
      | Some rows \<Rightarrow> map_option status (find (\<lambda>row. scan_id row = sid) rows))"

text \<open>
  The two methods that write table \<^verbatim>\<open>scans\<close>, as calls with their arguments, and the
  statuses a reader sees for one scan after each call of a sequence of calls.
\<close>

datatype ('r, 'a) db_call =
    CreateScan string string string string
  | SaveResults string string 'r 'a

fun db_step ::
  "('r \<Rightarrow> exn + string) \<Rightarrow> ('a \<Rightarrow> exn + string) \<Rightarrow> ('r, 'a) db_call \<Rightarrow> database
   \<Rightarrow> database" where
  "db_step dumps_results dumps_analysis (CreateScan new_id now tgt stype) db =
     fst (create_scan new_id now tgt stype db)"
| "db_step dumps_results dumps_analysis (SaveResults now sid res ana) db =
     fst (save_results dumps_results dumps_analysis now sid res ana db)"

fun observed ::
  "('r \<Rightarrow> exn + string) \<Rightarrow> ('a \<Rightarrow> exn + string) \<Rightarrow> string \<Rightarrow> ('r, 'a) db_call list
   \<Rightarrow> database \<Rightarrow> string list" where
  "observed dumps_results dumps_analysis sid [] db = []"
| "observed dumps_results dumps_analysis sid (c # cs) db =
     (case status_of sid (db_step dumps_results dumps_analysis c db) of
        None \<Rightarrow> observed dumps_results dumps_analysis sid cs
                 (db_step dumps_results dumps_analysis c db)
      | Some st \<Rightarrow> st # observed dumps_results dumps_analysis sid cs
                   (db_step dumps_results dumps_analysis c db))"

section \<open>modules/llm\_analyzer.py\<close>

text \<open>
  The prompt of each method, by the values its f-string embeds (the target, the
  intelligence data).
\<close>

datatype prompt =
    SummaryPrompt string string
  | RiskScorePrompt string
  | AttackSurfacePrompt string
  | VulnerabilitiesPrompt string
  | RecommendationsPrompt string string
  | CorrelationsPrompt string

text \<open>
  What the analyzer calls. \<open>chat_completion\<close> is
  \<^verbatim>\<open>self.client.chat.completions.create(...).choices[0].message.content\<close>: the text
  of the reply, or the exception that the request or the reading of the reply raises.
  \<open>int_of_text\<close> is \<^verbatim>\<open>int\<close> on text and \<open>json_loads\<close> is \<^verbatim>\<open>json.loads\<close>; both raise
  on text they cannot read. \<open>prepare_intelligence_data\<close> is the method of that name,
  which formats the result map as text and raises on a map of another shape.
\<close>

record 'p llm =
  prepare_intelligence_data :: "(string \<times> 'p) list \<Rightarrow> exn + string"
  chat_completion :: "prompt \<Rightarrow> exn + string"
  int_of_text :: "string \<Rightarrow> exn + int"
  json_loads :: "string \<Rightarrow> exn + json"

text \<open>\<^verbatim>\<open>s.startswith(p)\<close> and \<^verbatim>\<open>s.split(sep)\<close>.\<close>

definition startswith :: "string \<Rightarrow> string \<Rightarrow> bool" where
  "startswith s p \<longleftrightarrow> take (length p) s = p"

fun split_from :: "string \<Rightarrow> string \<Rightarrow> string \<Rightarrow> string list" where
  "split_from sep acc [] = [rev acc]"
| "split_from sep acc (c # cs) =
     (if sep \<noteq> [] \<and> take (length sep) (c # cs) = sep
      then rev acc # split_from sep [] (drop (length sep) (c # cs))
      else split_from sep (c # acc) cs)"

definition split :: "string \<Rightarrow> string \<Rightarrow> exn + string list" where
  "split s sep =
     (if sep = [] then Inl (ValueError ''empty separator'') else Inr (split_from sep [] s))"

text \<open>
  The lines that four methods share: strip the reply, take the text inside a
  Markdown code fence if the reply starts with one, and parse it.
  \<^verbatim>\<open>content.split("```")[1]\<close> raises \<open>IndexError\<close> on a list of one part.
\<close>

definition parse_json_reply :: "'p llm \<Rightarrow> string \<Rightarrow> ('s, json) action" where
  "parse_json_reply llm reply =
     (let content = strip reply
      in if startswith content ''```'' then
           then_do (lift (split content ''```'')) (\<lambda>parts.
             case parts of
               _ # part # _ \<Rightarrow>
                 lift (json_loads llm (if startswith part ''json'' then drop 4 part else part))
             | _ \<Rightarrow> raises (IndexError ''list index out of range''))
         else lift (json_loads llm content))"

definition generate_summary :: "'p llm \<Rightarrow> string \<Rightarrow> string \<Rightarrow> ('s, string) action" where
  "generate_summary llm tgt intelligence_data =
     try_except
       (then_do (lift (chat_completion llm (SummaryPrompt tgt intelligence_data)))
          (\<lambda>content. returns (strip content)))
       (\<lambda>e. returns (''Summary generation failed: '' @ str e))"

definition calculate_risk_score :: "'p llm \<Rightarrow> string \<Rightarrow> ('s, int) action" where
  "calculate_risk_score llm intelligence_data =
     try_except
       (then_do (lift (chat_completion llm (RiskScorePrompt intelligence_data)))
          (\<lambda>content. lift (int_of_text llm (strip content))))
       (\<lambda>e. returns 50)"

definition analyze_attack_surface :: "'p llm \<Rightarrow> string \<Rightarrow> ('s, json) action" where
  "analyze_attack_surface llm intelligence_data =
     try_except
       (then_do (lift (chat_completion llm (AttackSurfacePrompt intelligence_data)))
          (parse_json_reply llm))
       (\<lambda>e. returns (JDict
          [(''exposure_points'', JList [JStr ''Unable to analyze'']),
           (''entry_vectors'', JList [JStr ''Unable to analyze'']),
           (''high_value_targets'', JList [JStr ''Unable to analyze''])]))"

definition identify_vulnerabilities :: "'p llm \<Rightarrow> string \<Rightarrow> ('s, json) action" where
  "identify_vulnerabilities llm intelligence_data =
     try_except
       (then_do (lift (chat_completion llm (VulnerabilitiesPrompt intelligence_data)))
          (parse_json_reply llm))
       (\<lambda>e. returns (JList
          [JDict [(''title'', JStr ''Analysis Error''), (''severity'', JStr ''Unknown''),
                  (''description'', JStr ''Unable to identify vulnerabilities'')]]))"

definition generate_recommendations :: "'p llm \<Rightarrow> string \<Rightarrow> string \<Rightarrow> ('s, json) action" where
  "generate_recommendations llm tgt intelligence_data =
     try_except
       (then_do (lift (chat_completion llm (RecommendationsPrompt tgt intelligence_data)))
          (parse_json_reply llm))
       (\<lambda>e. returns (JList [JStr ''Unable to generate recommendations'']))"

definition find_correlations :: "'p llm \<Rightarrow> string \<Rightarrow> ('s, json) action" where
  "find_correlations llm intelligence_data =
     try_except
       (then_do (lift (chat_completion llm (CorrelationsPrompt intelligence_data)))
          (parse_json_reply llm))
       (\<lambda>e. returns (JList
          [JDict [(''finding'', JStr ''Analysis incomplete''),
                  (''significance'', JStr ''Unable to correlate data'')]]))"

text \<open>
  The dictionary \<^verbatim>\<open>analysis\<close>; the key \<^verbatim>\<open>error\<close> is there when \<open>analysis_error\<close>
  is not \<open>None\<close>.
\<close>

record llm_analysis =
  analysis_target :: string
  analysis_timestamp :: string
  summary :: string
  risk_score :: int
  attack_surface :: json
  vulnerabilities :: json
  recommendations :: json
  correlations :: json
  analysis_error :: "string option"

text \<open>
  \<^verbatim>\<open>analyze(self, target, results)\<close>. The dictionary is the state of the
  \<^verbatim>\<open>try\<close> block, so a key assigned before an exception keeps its value.
  \<^verbatim>\<open>_prepare_intelligence_data\<close> runs before the \<^verbatim>\<open>try\<close>.
\<close>

definition analyze ::
  "'p llm \<Rightarrow> string \<Rightarrow> string \<Rightarrow> (string \<times> 'p) list \<Rightarrow> exn + llm_analysis" where
  "analyze llm now tgt res =
     (let analysis0 =
            \<lparr>analysis_target = tgt, analysis_timestamp = now, summary = [], risk_score = 0,
             attack_surface = JDict [], vulnerabilities = JList [], recommendations = JList [],
             correlations = JList [], analysis_error = None\<rparr>
      in case prepare_intelligence_data llm res of
           Inl e \<Rightarrow> Inl e
         | Inr intelligence_data \<Rightarrow>
             Inr (fst (try_except
               (then_do (generate_summary llm tgt intelligence_data) (\<lambda>v.
                then_do (store (\<lambda>a. a\<lparr>summary := v\<rparr>)) (\<lambda>_.
                then_do (calculate_risk_score llm intelligence_data) (\<lambda>v.
                then_do (store (\<lambda>a. a\<lparr>risk_score := v\<rparr>)) (\<lambda>_.
                then_do (analyze_attack_surface llm intelligence_data) (\<lambda>v.
                then_do (store (\<lambda>a. a\<lparr>attack_surface := v\<rparr>)) (\<lambda>_.
                then_do (identify_vulnerabilities llm intelligence_data) (\<lambda>v.
                then_do (store (\<lambda>a. a\<lparr>vulnerabilities := v\<rparr>)) (\<lambda>_.
                then_do (generate_recommendations llm tgt intelligence_data) (\<lambda>v.
                then_do (store (\<lambda>a. a\<lparr>recommendations := v\<rparr>)) (\<lambda>_.
                then_do (find_correlations llm intelligence_data) (\<lambda>v.
                store (\<lambda>a. a\<lparr>correlations := v\<rparr>)))))))))))))
               (\<lambda>e. store (\<lambda>a. a\<lparr>analysis_error := Some (''LLM analysis failed: '' @ str e)\<rparr>))
               analysis0)))"


section \<open>app.py\<close>

text \<open>
  What \<^verbatim>\<open>start_scan\<close> uses of the module: the \<^verbatim>\<open>scan\<close> method of each intelligence
  object (the value it returns or the exception it raises, for a target), the
  analyzer, \<^verbatim>\<open>json.dumps\<close> on a result map and on an analysis (the text, or the
  exception raised on a value that cannot be serialised), \<^verbatim>\<open>uuid.uuid4()\<close> and the
  clock. \<open>utcnow n\<close> is the \<open>n\<close>-th reading of
  \<^verbatim>\<open>datetime.utcnow().isoformat()\<close> during the request.
\<close>

record 'p app =
  domain_intel :: "string \<Rightarrow> exn + 'p"
  web_intel :: "string \<Rightarrow> exn + 'p"
  network_intel :: "string \<Rightarrow> exn + 'p"
  social_intel :: "string \<Rightarrow> exn + 'p"
  threat_intel :: "string \<Rightarrow> exn + 'p"
  llm_analyzer :: "'p llm"
  json_dumps_results :: "(string \<times> 'p) list \<Rightarrow> exn + string"
  json_dumps_analysis :: "llm_analysis \<Rightarrow> exn + string"
  uuid4 :: string
  utcnow :: "nat \<Rightarrow> string"

datatype http_exception = HTTPException nat string

datatype 'p recon_response =
  ReconResponse
    (response_scan_id: string)
    (response_target: string)
    (response_status: string)
    (response_results: "(string \<times> 'p) list")
    (response_analysis: llm_analysis)
    (response_timestamp: string)

text \<open>
  \<^verbatim>\<open>if name in recon_request.modules: results[name] = await module.scan(target)\<close>
\<close>

definition scan_if_requested ::
  "string \<Rightarrow> string list \<Rightarrow> (string \<Rightarrow> exn + 'p) \<Rightarrow> string \<Rightarrow> (string \<times> 'p) list
   \<Rightarrow> ('s, (string \<times> 'p) list) action" where
  "scan_if_requested name modules module_scan tgt res =
     (if name \<in> set modules
      then then_do (lift (module_scan tgt)) (\<lambda>payload. returns (AList.update name payload res))
      else returns res)"

text \<open>
  \<^verbatim>\<open>start_scan\<close> of app.py, for the request \<^verbatim>\<open>(target, scan_type, modules)\<close>: the
  body of its \<^verbatim>\<open>try\<close>, and the handler that turns every exception into
  \<^verbatim>\<open>HTTPException(status_code=500, detail=str(e))\<close>.
\<close>

definition start_scan_body ::
  "'p app \<Rightarrow> string \<Rightarrow> string \<Rightarrow> string list
   \<Rightarrow> (database, 'p recon_response) action" where
  "start_scan_body app tgt stype modules =
     then_do (create_scan (uuid4 app) (utcnow app 0) tgt stype) (\<lambda>sid.
     then_do (scan_if_requested ''domain'' modules (domain_intel app) tgt []) (\<lambda>res1.
     then_do (scan_if_requested ''web'' modules (web_intel app) tgt res1) (\<lambda>res2.
     then_do (scan_if_requested ''network'' modules (network_intel app) tgt res2) (\<lambda>res3.
     then_do (scan_if_requested ''social'' modules (social_intel app) tgt res3) (\<lambda>res4.
     then_do (scan_if_requested ''threat'' modules (threat_intel app) tgt res4) (\<lambda>res.
     then_do (lift (analyze (llm_analyzer app) (utcnow app 1) tgt res)) (\<lambda>ana.
     then_do (save_results (json_dumps_results app) (json_dumps_analysis app)
                (utcnow app 2) sid res ana) (\<lambda>_.
     returns (ReconResponse sid tgt ''completed'' res ana (utcnow app 3))))))))))"

definition start_scan ::
  "'p app \<Rightarrow> string \<Rightarrow> string \<Rightarrow> string list
   \<Rightarrow> database
   \<Rightarrow> database \<times> (http_exception + 'p recon_response)" where
  "start_scan app tgt stype modules db =
     (case start_scan_body app tgt stype modules db of
        (db', Inl e) \<Rightarrow> (db', Inl (HTTPException 500 (str e)))
      | (db', Inr response) \<Rightarrow> (db', Inr response))"

text \<open>
  The modules of a request that \<^verbatim>\<open>start_scan\<close> runs, in the order in which it runs
  them, each with its \<^verbatim>\<open>scan\<close> method.
\<close>

definition dispatched ::
  "('p, 'more) app_scheme \<Rightarrow> string list \<Rightarrow> (string \<times> (string \<Rightarrow> exn + 'p)) list" where
  "dispatched app modules =
     filter (\<lambda>(name, module_scan). name \<in> set modules)
       [(''domain'', domain_intel app), (''web'', web_intel app),
        (''network'', network_intel app), (''social'', social_intel app),
        (''threat'', threat_intel app)]"

text \<open>
  The five conditional statements as one loop over the dispatched modules (lemma
  \<open>module_chain\<close> shows that \<^verbatim>\<open>start_scan\<close> runs exactly this).
\<close>

fun run_modules ::
  "(string \<times> (string \<Rightarrow> exn + 'p)) list \<Rightarrow> string \<Rightarrow> (string \<times> 'p) list
   \<Rightarrow> ('s, (string \<times> 'p) list) action" where
  "run_modules [] tgt res = returns res"
| "run_modules ((name, module_scan) # ms) tgt res =
     then_do (lift (module_scan tgt)) (\<lambda>payload.
       run_modules ms tgt (AList.update name payload res))"

section \<open>app\_v2.py\<close>

text \<open>
  A call \<^verbatim>\<open>f(a1, ..., an, k1=..., ..., km=...)\<close> of a function with the named
  parameters \<open>params\<close> (none with a default, no \<^verbatim>\<open>*args\<close>, no \<^verbatim>\<open>**kwargs\<close>): the
  interpreter binds the keywords, then checks the number of positional arguments,
  then looks for parameters left without a value, and raises \<open>TypeError\<close> before
  the body runs when a step fails.
\<close>

definition bind_arguments :: "string list \<Rightarrow> nat \<Rightarrow> string list \<Rightarrow> exn + unit" where
  "bind_arguments params n_positional keywords =
     (case filter (\<lambda>k. k \<notin> set params) keywords of
        k # _ \<Rightarrow> Inl (TypeError (''got an unexpected keyword argument '' @ k))
      | [] \<Rightarrow>
          (case filter (\<lambda>k. k \<in> set (take n_positional params)) keywords of
             k # _ \<Rightarrow> Inl (TypeError (''got multiple values for argument '' @ k))
           | [] \<Rightarrow>
               if length params < n_positional
               then Inl (TypeError ''takes fewer positional arguments than were given'')
               else (case filter (\<lambda>p. p \<notin> set keywords) (drop n_positional params) of
                       p # _ \<Rightarrow> Inl (TypeError (''missing required positional argument '' @ p))
                     | [] \<Rightarrow> Inr ())))"

text \<open>
  \<^verbatim>\<open>async def analyze(self, target: str, results: Dict[str, Any])\<close>, called on the
  object.
\<close>

definition analyze_parameters :: "string list" where
  "analyze_parameters = [''target'', ''results'']"

text \<open>
  The attributes of a \<^verbatim>\<open>Database\<close> object, and \<^verbatim>\<open>db.name\<close> for a name: it raises
  \<open>AttributeError\<close> for a name that is not among them.
\<close>

definition database_attributes :: "string list" where
  "database_attributes =
     [''db_path'', ''conn'', ''initialize'', ''create_scan'', ''save_results'', ''get_scan'',
      ''get_recent_scans'', ''get_statistics'', ''close'']"

definition database_getattr :: "string \<Rightarrow> exn + unit" where
  "database_getattr name =
     (if name \<in> set database_attributes then Inr ()
      else Inl (AttributeError (''Database object has no attribute '' @ name)))"

text \<open>
  The module of app\_v2.py has the person module as well; its \<^verbatim>\<open>scan\<close> takes the
  target and the keywords \<^verbatim>\<open>state\<close> and \<^verbatim>\<open>dob\<close>. \<open>analyze_body\<close> stands for what
  the body of \<^verbatim>\<open>analyze\<close> would do with the result map as its first argument,
  were the call to bind its arguments.
\<close>

record 'p app_v2 = "'p app" +
  person_intel :: "string \<Rightarrow> string option \<Rightarrow> string option \<Rightarrow> exn + 'p"
  analyze_body :: "(string \<times> 'p) list \<Rightarrow> exn + llm_analysis"

datatype 'p recon_response_v2 =
  ReconResponse_v2
    (response_v2_scan_id: string)
    (response_v2_target: string)
    (response_v2_target_type: string)
    (response_v2_status: string)
    (response_v2_results: "(string \<times> 'p) list")
    (response_v2_analysis: llm_analysis)
    (response_v2_timestamp: string)

text \<open>\<^verbatim>\<open>await llm_analyzer.analyze(results, target_type=...)\<close>\<close>

definition call_analyze_v2 :: "'p app_v2 \<Rightarrow> (string \<times> 'p) list \<Rightarrow> ('s, llm_analysis) action" where
  "call_analyze_v2 app res =
     then_do (lift (bind_arguments analyze_parameters 1 [''target_type'']))
       (\<lambda>_. lift (analyze_body app res))"

text \<open>
  \<^verbatim>\<open>db.update_scan(scan_id, "completed", results, analysis)\<close>: the attribute is
  looked up first.
\<close>

definition call_update_scan :: "('s, unit) action" where
  "call_update_scan = then_do (lift (database_getattr ''update_scan'')) (\<lambda>_. returns ())"

text \<open>
  \<^verbatim>\<open>start_scan\<close> of app\_v2.py, for the request
  \<^verbatim>\<open>(target, scan_type, target_type, modules, state, dob)\<close>.
\<close>

definition start_scan_v2_body ::
  "'p app_v2 \<Rightarrow> string \<Rightarrow> string \<Rightarrow> string \<Rightarrow> string list \<Rightarrow> string option \<Rightarrow> string option
   \<Rightarrow> (database, 'p recon_response_v2) action" where
  "start_scan_v2_body app tgt stype target_type modules state dob =
     then_do (create_scan (uuid4 app) (utcnow app 0) tgt stype) (\<lambda>sid.
     then_do
       (if target_type = ''person'' then
          then_do (lift (person_intel app tgt state dob)) (\<lambda>payload.
          then_do (returns (AList.update ''person'' payload [])) (\<lambda>res.
          then_do (call_analyze_v2 app res) (\<lambda>ana.
          returns (res, ana))))
        else
          then_do (scan_if_requested ''domain'' modules (domain_intel app) tgt []) (\<lambda>res1.
          then_do (scan_if_requested ''web'' modules (web_intel app) tgt res1) (\<lambda>res2.
          then_do (scan_if_requested ''network'' modules (network_intel app) tgt res2) (\<lambda>res3.
          then_do (scan_if_requested ''social'' modules (social_intel app) tgt res3) (\<lambda>res4.
          then_do (scan_if_requested ''threat'' modules (threat_intel app) tgt res4) (\<lambda>res.
          then_do (call_analyze_v2 app res) (\<lambda>ana.
          returns (res, ana))))))))
       (\<lambda>(res, ana).
     then_do call_update_scan (\<lambda>_.
     returns (ReconResponse_v2 sid tgt target_type ''completed'' res ana (utcnow app 1)))))"

definition start_scan_v2 ::
  "'p app_v2 \<Rightarrow> string \<Rightarrow> string \<Rightarrow> string \<Rightarrow> string list \<Rightarrow> string option \<Rightarrow> string option
   \<Rightarrow> database
   \<Rightarrow> database \<times> (http_exception + 'p recon_response_v2)" where
  "start_scan_v2 app tgt stype target_type modules state dob db =
     (case start_scan_v2_body app tgt stype target_type modules state dob db of
        (db', Inl e) \<Rightarrow> (db', Inl (HTTPException 500 (str e)))
      | (db', Inr response) \<Rightarrow> (db', Inr response))"

section \<open>Example environments\<close>

text \<open>
  A network in which example.com resolves; on its address port 22 sends a banner,
  port 80 sends nothing before the deadline, port 443 closes without data, port
  3306 resets the connection, and every other port refuses.
\<close>

definition example_network :: network where
  "example_network =
     \<lparr>gethostbyname = (\<lambda>host.
        if host = ''example.com'' then Inr ''93.184.216.34''
        else Inl (GaiError ''[Errno -2] Name or service not known'')),
      open_connection = (\<lambda>host port.
        if port = 22 then Inr \<lparr>read_1024 = Inr ''SSH-2.0-OpenSSH_8.9 '', wait_closed = Inr ()\<rparr>
        else if port = 80 then Inr \<lparr>read_1024 = Inl (TimeoutError []), wait_closed = Inr ()\<rparr>
        else if port = 443 then Inr \<lparr>read_1024 = Inr [], wait_closed = Inr ()\<rparr>
        else if port = 3306 then
          Inr \<lparr>read_1024 = Inl (ConnectionResetError ''[Errno 104] Connection reset by peer''),
               wait_closed = Inl (ConnectionResetError ''[Errno 104] Connection reset by peer'')\<rparr>
        else Inl (ConnectionRefusedError ''[Errno 111] Connect call failed''))\<rparr>"

text \<open>
  An analysis provider that is down (every request raises), with the parsers of the
  standard library raising on every text.
\<close>

definition example_llm :: "string llm" where
  "example_llm =
     \<lparr>prepare_intelligence_data = (\<lambda>res. Inr ''Intelligence data''),
      chat_completion = (\<lambda>p. Inl (Exception ''Connection error.'')),
      int_of_text = (\<lambda>s. Inl (ValueError ''invalid literal for int()'')),
      json_loads = (\<lambda>s. Inl (ValueError ''Expecting value''))\<rparr>"

text \<open>The analysis that \<open>analyze\<close> returns with this provider.\<close>

definition example_analysis :: llm_analysis where
  "example_analysis =
     \<lparr>analysis_target = ''example.com'', analysis_timestamp = ''2024-01-01T00:00:01'',
      summary = ''Summary generation failed: Connection error.'',
      risk_score = 50,
      attack_surface = JDict
        [(''exposure_points'', JList [JStr ''Unable to analyze'']),
         (''entry_vectors'', JList [JStr ''Unable to analyze'']),
         (''high_value_targets'', JList [JStr ''Unable to analyze''])],
      vulnerabilities = JList
        [JDict [(''title'', JStr ''Analysis Error''), (''severity'', JStr ''Unknown''),
                (''description'', JStr ''Unable to identify vulnerabilities'')]],
      recommendations = JList [JStr ''Unable to generate recommendations''],
      correlations = JList
        [JDict [(''finding'', JStr ''Analysis incomplete''),
                (''significance'', JStr ''Unable to correlate data'')]],
      analysis_error = None\<rparr>"

text \<open>
  An application whose modules all return (payloads are texts here, and the
  serialiser is a stand-in that returns on every value), one whose web module raises,
  and a store with an open connection and no scan yet.
\<close>

definition example_app :: "string app" where
  "example_app =
     \<lparr>domain_intel = (\<lambda>tgt. Inr ''domain data''),
      web_intel = (\<lambda>tgt. Inr ''web data''),
      network_intel = (\<lambda>tgt. Inr ''network data''),
      social_intel = (\<lambda>tgt. Inr ''social data''),
      threat_intel = (\<lambda>tgt. Inr ''threat data''),
      llm_analyzer = example_llm,
      json_dumps_results = (\<lambda>res. Inr (concat (map (\<lambda>(name, payload). name @ ''='' @ payload @ '';'') res))),
      json_dumps_analysis = (\<lambda>ana. Inr (summary ana)),
      uuid4 = ''scan-1'',
      utcnow = (\<lambda>n. if n = 0 then ''2024-01-01T00:00:00''
                     else if n = 1 then ''2024-01-01T00:00:01''
                     else if n = 2 then ''2024-01-01T00:00:02''
                     else ''2024-01-01T00:00:03'')\<rparr>"

definition failing_web_app :: "string app" where
  "failing_web_app = example_app\<lparr>web_intel := (\<lambda>tgt. Inl (Exception ''web module failed''))\<rparr>"

definition example_db :: database where
  "example_db = \<lparr>conn = Some []\<rparr>"


text \<open>
  The application of app\_v2.py with the same modules as \<open>failing_web_app\<close> and a
  person module that raises.
\<close>

definition failing_app_v2 :: "string app_v2" where
  "failing_app_v2 =
     app.extend failing_web_app
       \<lparr>person_intel = (\<lambda>tgt state dob. Inl (Exception ''person module failed'')),
        analyze_body = (\<lambda>res. Inr example_analysis)\<rparr>"

section \<open>Port probes\<close>

lemma scan_port_unfold:
  "scan_port net host port log =
     (log @ [(host, port)],
      Inr (case open_connection net host port of
             Inl e \<Rightarrow> (port, False, None)
           | Inr cn \<Rightarrow>
               (case wait_closed cn of
                  Inl e \<Rightarrow> (port, False, None)
                | Inr u \<Rightarrow>
                    (port, True,
                     (case read_1024 cn of Inl e \<Rightarrow> None | Inr d \<Rightarrow> Some (strip d))))))"
  by (simp add: scan_port_def try_except_def then_do_def connect_def lift_def returns_def
      split: sum.splits)

lemma scan_port_probe:
  "scan_port net host port log = (log @ [(host, port)], Inr (probe net host port))"
  by (simp add: probe_def scan_port_unfold)

lemma probe_port: "fst (probe net host port) = port"
  by (simp add: probe_def scan_port_unfold split: sum.splits)

text \<open>
  C5: the probe of one port never raises. For every network, host and port,
  \<^verbatim>\<open>_scan_port\<close> returns a tuple for that port; a connection attempt that raises,
  whatever the exception, gives \<^verbatim>\<open>(port, False, None)\<close>.
\<close>

theorem scan_port_never_raises:
  "(\<exists>is_open banner. snd (scan_port net host port log) = Inr (port, is_open, banner)) \<and>
   (\<forall>e. open_connection net host port = Inl e \<longrightarrow>
        snd (scan_port net host port log) = Inr (port, False, None))"
  by (auto simp: scan_port_unfold split: sum.splits)

theorem scan_port_never_raises_witness:
  "open_connection example_network ''93.184.216.34'' 21
     = Inl (ConnectionRefusedError ''[Errno 111] Connect call failed'') \<and>
   snd (scan_port example_network ''93.184.216.34'' 21 []) = Inr (21, False, None)"
proof -
  have refused: "open_connection example_network ''93.184.216.34'' 21
     = Inl (ConnectionRefusedError ''[Errno 111] Connect call failed'')"
    by (simp add: example_network_def)
  from scan_port_never_raises[of example_network "''93.184.216.34''" 21 "[]"] refused
  show ?thesis by blast
qed

text \<open>
  C8: the probe at the input where the code and the claim part. On a connection that
  is reset before it sends data, the banner read raises and the inner handler leaves
  \<^verbatim>\<open>banner = None\<close>; then \<^verbatim>\<open>writer.wait_closed()\<close> raises the same error inside
  the outer \<^verbatim>\<open>try\<close>, and the probe reports the port closed, where the claim says
  open with no banner. On the sibling paths, with a connection that closes normally:
  after a banner read that runs into its deadline the probe does report the port open
  with \<^verbatim>\<open>banner = None\<close>, and after a read that returns no data it reports the
  port open with the empty text as banner.
\<close>

theorem reset_banner_read_reports_closed:
  "open_connection example_network ''93.184.216.34'' 3306 =
     Inr \<lparr>read_1024 = Inl (ConnectionResetError ''[Errno 104] Connection reset by peer''),
          wait_closed = Inl (ConnectionResetError ''[Errno 104] Connection reset by peer'')\<rparr> \<and>
   snd (scan_port example_network ''93.184.216.34'' 3306 []) = Inr (3306, False, None) \<and>
   snd (scan_port example_network ''93.184.216.34'' 80 []) = Inr (80, True, None) \<and>
   snd (scan_port example_network ''93.184.216.34'' 443 []) = Inr (443, True, Some [])"
  by (simp add: scan_port_unfold example_network_def strip_def)

section \<open>Gathering the probes\<close>

lemma sort_key_positions:
  assumes "distinct completion" and "set completion = {0..<n}"
  shows "sort_key fst (map (\<lambda>i. (i, f i)) completion) = map (\<lambda>i. (i, f i)) [0..<n]"
proof (rule map_sorted_distinct_set_unique[where f = fst])
  show "inj_on fst (set (sort_key fst (map (\<lambda>i. (i, f i)) completion))
          \<union> set (map (\<lambda>i. (i, f i)) [0..<n]))"
    using assms by (auto simp: inj_on_def)
  show "sorted (map fst (sort_key fst (map (\<lambda>i. (i, f i)) completion)))"
    by simp
  show "distinct (map fst (sort_key fst (map (\<lambda>i. (i, f i)) completion)))"
    using assms by (simp add: distinct_map inj_on_def comp_def)
  show "sorted (map fst (map (\<lambda>i. (i, f i)) [0..<n]))"
    by (simp add: comp_def)
  show "distinct (map fst (map (\<lambda>i. (i, f i)) [0..<n]))"
    by (simp add: comp_def)
  show "set (sort_key fst (map (\<lambda>i. (i, f i)) completion)) = set (map (\<lambda>i. (i, f i)) [0..<n])"
    using assms by simp
qed

lemma collect_returned: "[v. (i, Inr v) \<leftarrow> map (\<lambda>i. (i, Inr (g i))) xs] = map g xs"
  by (induction xs) simp_all

lemma collect_raised_none: "[e. (i, Inl e) \<leftarrow> map (\<lambda>i. (i, Inr (g i))) xs] = []"
  by (induction xs) simp_all

lemma gather_all_return:
  assumes "run_all tasks s = (s', map Inr vs)" and "completion_order (length vs) completion"
  shows "gather completion tasks s = (s', Inr vs)"
proof -
  let ?out = "map Inr vs :: (exn + 'b) list"
  have d: "distinct completion" and st: "set completion = {0..<length vs}"
    using assms(2) by (simp_all add: completion_order_def)
  have fin: "map (\<lambda>i. (i, ?out ! i)) completion = map (\<lambda>i. (i, Inr (vs ! i))) completion"
    using st by (intro map_cong) auto
  have noexn: "[e. (i, Inl e) \<leftarrow> map (\<lambda>i. (i, ?out ! i)) completion] = []"
    unfolding fin by (rule collect_raised_none)
  have "sort_key fst (map (\<lambda>i. (i, Inr (vs ! i) :: exn + 'b)) completion)
          = map (\<lambda>i. (i, Inr (vs ! i))) [0..<length vs]"
    by (rule sort_key_positions[OF d st])
  then have "[v. (i, Inr v) \<leftarrow> sort_key fst (map (\<lambda>i. (i, ?out ! i)) completion)]
          = map (\<lambda>i. vs ! i) [0..<length vs]"
    unfolding fin by (simp only: collect_returned)
  then have vals: "[v. (i, Inr v) \<leftarrow> sort_key fst (map (\<lambda>i. (i, ?out ! i)) completion)] = vs"
    by (simp add: map_nth)
  show ?thesis
    by (simp only: gather_def assms(1) prod.case Let_def noexn vals list.case)
qed

lemma run_all_probes:
  "run_all (map (scan_port net host) ports) log =
     (log @ map (Pair host) ports, map Inr (map (probe net host) ports))"
  by (induction ports arbitrary: log) (simp_all add: scan_port_probe)

lemma gather_probes:
  assumes "completion_order (length ports) completion"
  shows "gather completion (map (scan_port net host) ports) log =
           (log @ map (Pair host) ports, Inr (map (probe net host) ports))"
  by (rule gather_all_return[OF run_all_probes]) (simp add: assms)

section \<open>The network scan\<close>

lemma classify_open_closed:
  "open_ports (classify r prs) = open_ports r @ map fst (filter (\<lambda>pr. fst (snd pr)) prs) \<and>
   closed_ports (classify r prs)
     = closed_ports r @ map fst (filter (\<lambda>pr. \<not> fst (snd pr)) prs)"
  by (induction r prs rule: classify.induct) (auto simp: Let_def split: option.splits)

lemma update_new_key: "k \<notin> fst ` set al \<Longrightarrow> AList.update k v al = al @ [(k, v)]"
  by (induction al) auto

lemma classify_services:
  "distinct (map fst prs) \<Longrightarrow> fst ` set prs \<inter> fst ` set (services r) = {} \<Longrightarrow>
   services (classify r prs) =
     services r @ map (\<lambda>pr. (fst pr, identify_service (fst pr))) (filter (\<lambda>pr. fst (snd pr)) prs)"
proof (induction r prs rule: classify.induct)
  case (1 results)
  then show ?case by simp
next
  case (2 results port is_open banner rest)
  have new: "port \<notin> fst ` set (services results)"
    using 2 by auto
  have rest: "fst ` set rest \<inter> fst ` set (services results @ [(port, identify_service port)]) = {}"
    using 2 by auto
  have rest': "fst ` set rest \<inter> fst ` set (services results) = {}"
    using 2 by auto
  show ?case
    using 2 new rest rest' by (auto simp: Let_def update_new_key split: option.splits)
qed

lemma probes_by_port:
  "map fst (filter (\<lambda>pr. P (fst (snd pr))) (map (probe net host) ports))
     = filter (\<lambda>p. P (fst (snd (probe net host p)))) ports"
  by (induction ports) (simp_all add: probe_port)

lemma scan_resolved:
  assumes "gethostbyname net tgt = Inr ip" and "completion_order (length common_ports) completion"
  shows "scan net now completion tgt log =
           (log @ map (Pair ip) common_ports,
            Inr (classify \<lparr>target = tgt, timestamp = now, open_ports = [], closed_ports = [],
                      services = [], banners = [], ip_address = Some ip, error = None\<rparr>
                    (map (probe net ip) common_ports)))"
  by (simp add: scan_def assms(1) Let_def then_do_def gather_probes[OF assms(2)] returns_def)

lemma distinct_common_ports: "distinct common_ports"
  by (simp add: common_ports_def)

lemma example_completion: "completion_order (length common_ports) (rev [0..<20])"
  by code_simp

lemma example_resolves: "gethostbyname example_network ''example.com'' = Inr ''93.184.216.34''"
  by (simp add: example_network_def)

lemma example_scan:
  "snd (scan example_network ''2024-01-01T00:00:00'' (rev [0..<20]) ''example.com'' []) =
     Inr \<lparr>target = ''example.com'', timestamp = ''2024-01-01T00:00:00'',
          open_ports = [22, 80, 443],
          closed_ports = [21, 23, 25, 53, 110, 143, 465, 587, 993, 995, 3306, 3389, 5432,
                          5900, 8080, 8443, 27017],
          services = [(22, ''SSH''), (80, ''HTTP''), (443, ''HTTPS'')],
          banners = [(22, ''SSH-2.0-OpenSSH_8.9'')],
          ip_address = Some ''93.184.216.34'', error = None\<rparr>"
  by code_simp

text \<open>
  C3: a host name that does not resolve. The scan returns the result dictionary with
  the key \<^verbatim>\<open>error\<close> set to the resolution failure message; it attempts no connection
  (the log of attempts is unchanged), and the lists of open and closed ports, the
  services and the banners are empty.
\<close>

theorem scan_unresolved:
  assumes "gethostbyname net tgt = Inl e"
  shows "scan net now completion tgt log =
           (log, Inr \<lparr>target = tgt, timestamp = now, open_ports = [], closed_ports = [],
                      services = [], banners = [], ip_address = None,
                      error = Some (''Could not resolve hostname: '' @ str e)\<rparr>)"
  by (simp add: scan_def assms returns_def)

theorem scan_unresolved_witness:
  "gethostbyname example_network ''nonexistent.invalid''
     = Inl (GaiError ''[Errno -2] Name or service not known'') \<and>
   scan example_network ''2024-01-01T00:00:00'' (rev [0..<20]) ''nonexistent.invalid'' [] =
     ([], Inr \<lparr>target = ''nonexistent.invalid'', timestamp = ''2024-01-01T00:00:00'',
               open_ports = [], closed_ports = [], services = [], banners = [],
               ip_address = None,
               error = Some ''Could not resolve hostname: [Errno -2] Name or service not known''\<rparr>)"
proof -
  have unresolved: "gethostbyname example_network ''nonexistent.invalid''
     = Inl (GaiError ''[Errno -2] Name or service not known'')"
    by (simp add: example_network_def)
  from scan_unresolved[OF unresolved, of "''2024-01-01T00:00:00''" "rev [0..<20]" "[]"] unresolved
  show ?thesis by simp
qed

text \<open>
  C6: a host name that resolves. Whatever the order in which the probes finish, the
  scan attempts one connection per port of the list of 20 ports, in the order of the
  list; \<^verbatim>\<open>gather\<close> returns one tuple per port, in the order of the list; the open
  ports are the ports of the list whose probe reports open, the closed ports the
  others, each in the order of the list; and the result is the one of the run in
  which the probes finish in the order of the list.
\<close>

theorem scan_port_list_order:
  assumes "gethostbyname net tgt = Inr ip" and "completion_order (length common_ports) completion"
  shows "\<exists>port_results r.
           gather completion (map (scan_port net ip) common_ports) log
             = (log @ map (Pair ip) common_ports, Inr port_results) \<and>
           map fst port_results = common_ports \<and>
           length port_results = 20 \<and>
           scan net now completion tgt log = (log @ map (Pair ip) common_ports, Inr r) \<and>
           open_ports r = filter (\<lambda>p. fst (snd (probe net ip p))) common_ports \<and>
           closed_ports r = filter (\<lambda>p. \<not> fst (snd (probe net ip p))) common_ports \<and>
           scan net now completion tgt log = scan net now [0..<length common_ports] tgt log"
proof -
  let ?prs = "map (probe net ip) common_ports"
  let ?init = "\<lparr>target = tgt, timestamp = now, open_ports = [], closed_ports = [],
              services = [], banners = [], ip_address = Some ip, error = None\<rparr>"
  have in_order: "completion_order (length common_ports) [0..<length common_ports]"
    by (simp add: completion_order_def)
  have "gather completion (map (scan_port net ip) common_ports) log
          = (log @ map (Pair ip) common_ports, Inr ?prs)"
    by (rule gather_probes[OF assms(2)])
  moreover have "map fst ?prs = common_ports"
    by (simp add: comp_def probe_port)
  moreover have "length ?prs = 20"
    by (simp add: common_ports_def)
  moreover have "scan net now completion tgt log
          = (log @ map (Pair ip) common_ports, Inr (classify ?init ?prs))"
    by (rule scan_resolved[OF assms])
  moreover have "open_ports (classify ?init ?prs)
          = filter (\<lambda>p. fst (snd (probe net ip p))) common_ports"
    using probes_by_port[of "\<lambda>b. b" net ip common_ports] by (simp add: classify_open_closed)
  moreover have "closed_ports (classify ?init ?prs)
          = filter (\<lambda>p. \<not> fst (snd (probe net ip p))) common_ports"
    using probes_by_port[of "\<lambda>b. \<not> b" net ip common_ports] by (simp add: classify_open_closed)
  moreover have "scan net now completion tgt log = scan net now [0..<length common_ports] tgt log"
    by (simp only: scan_resolved[OF assms] scan_resolved[OF assms(1) in_order])
  ultimately show ?thesis by blast
qed

theorem scan_port_list_order_witness:
  "gethostbyname example_network ''example.com'' = Inr ''93.184.216.34'' \<and>
   completion_order (length common_ports) (rev [0..<20]) \<and>
   (\<exists>r. scan example_network ''2024-01-01T00:00:00'' (rev [0..<20]) ''example.com'' []
           = (map (Pair ''93.184.216.34'') common_ports, Inr r) \<and>
         open_ports r = [22, 80, 443] \<and>
         closed_ports r = [21, 23, 25, 53, 110, 143, 465, 587, 993, 995, 3306, 3389, 5432,
                           5900, 8080, 8443, 27017])"
proof -
  from scan_port_list_order[OF example_resolves example_completion,
      of "[]" "''2024-01-01T00:00:00''"]
  obtain r where
    r: "scan example_network ''2024-01-01T00:00:00'' (rev [0..<20]) ''example.com'' []
          = (map (Pair ''93.184.216.34'') common_ports, Inr r)"
    by auto
  have "open_ports (projr (snd (scan example_network ''2024-01-01T00:00:00'' (rev [0..<20])
                ''example.com'' []))) = [22, 80, 443]"
    and "closed_ports (projr (snd (scan example_network ''2024-01-01T00:00:00'' (rev [0..<20])
                ''example.com'' [])))
          = [21, 23, 25, 53, 110, 143, 465, 587, 993, 995, 3306, 3389, 5432,
             5900, 8080, 8443, 27017]"
    by (simp_all add: example_scan)
  then have "open_ports r = [22, 80, 443]"
    and "closed_ports r = [21, 23, 25, 53, 110, 143, 465, 587, 993, 995, 3306, 3389, 5432,
                           5900, 8080, 8443, 27017]"
    using r by simp_all
  with r example_resolves example_completion show ?thesis by simp
qed

text \<open>
  C9: for a host name that resolves, the services map of the scan has exactly the
  open ports as keys, in their order, each with the label of \<^verbatim>\<open>_identify_service\<close>;
  no closed port is a key. \<^verbatim>\<open>_identify_service\<close> gives every port of the table its
  label (22 SSH, 443 HTTPS, 3306 MySQL) and every other port the label Unknown.
\<close>

theorem scan_services:
  assumes "gethostbyname net tgt = Inr ip" and "completion_order (length common_ports) completion"
  shows "\<exists>r. snd (scan net now completion tgt log) = Inr r \<and>
           services r = map (\<lambda>p. (p, identify_service p)) (open_ports r) \<and>
           (\<forall>p \<in> set (closed_ports r). map_of (services r) p = None) \<and>
           identify_service 22 = ''SSH'' \<and> identify_service 443 = ''HTTPS'' \<and>
           identify_service 3306 = ''MySQL'' \<and>
           (\<forall>p. p \<notin> fst ` set service_table \<longrightarrow> identify_service p = ''Unknown'') \<and>
           (\<forall>(p, label) \<in> set service_table. identify_service p = label)"
proof -
  let ?prs = "map (probe net ip) common_ports"
  let ?init = "\<lparr>target = tgt, timestamp = now, open_ports = [], closed_ports = [],
              services = [], banners = [], ip_address = Some ip, error = None\<rparr>"
  let ?res = "classify ?init ?prs"
  have ports: "map fst ?prs = common_ports"
    by (simp add: comp_def probe_port)
  have res: "snd (scan net now completion tgt log) = Inr ?res"
    by (simp add: scan_resolved[OF assms])
  have opened: "open_ports ?res = filter (\<lambda>p. fst (snd (probe net ip p))) common_ports"
    using probes_by_port[of "\<lambda>b. b" net ip common_ports] by (simp add: classify_open_closed)
  have closed: "closed_ports ?res = filter (\<lambda>p. \<not> fst (snd (probe net ip p))) common_ports"
    using probes_by_port[of "\<lambda>b. \<not> b" net ip common_ports] by (simp add: classify_open_closed)
  have "services ?res
          = map (\<lambda>pr. (fst pr, identify_service (fst pr))) (filter (\<lambda>pr. fst (snd pr)) ?prs)"
    using classify_services[where prs = ?prs and r = ?init] distinct_common_ports
    by (simp only: ports) simp
  also have "\<dots> = map (\<lambda>p. (p, identify_service p))
                    (map fst (filter (\<lambda>pr. fst (snd pr)) ?prs))"
    by (simp add: comp_def)
  also have "map fst (filter (\<lambda>pr. fst (snd pr)) ?prs) = open_ports ?res"
    by (simp add: classify_open_closed)
  finally have serv: "services ?res = map (\<lambda>p. (p, identify_service p)) (open_ports ?res)" .
  have keys: "fst ` set (services ?res) = set (open_ports ?res)"
    unfolding serv by (simp add: image_image)
  have noclosed: "\<forall>p \<in> set (closed_ports ?res). map_of (services ?res) p = None"
    unfolding map_of_eq_None_iff keys unfolding opened closed by simp
  have unknown: "\<forall>p. p \<notin> fst ` set service_table \<longrightarrow> identify_service p = ''Unknown''"
    by (simp add: identify_service_def map_of_eq_None_iff[symmetric])
  have known: "\<forall>(p, label) \<in> set service_table. identify_service p = label"
    by (simp add: identify_service_def service_table_def)
  have "identify_service 22 = ''SSH''" "identify_service 443 = ''HTTPS''"
    "identify_service 3306 = ''MySQL''"
    by (simp_all add: identify_service_def service_table_def)
  with res serv noclosed unknown known show ?thesis by blast
qed

theorem scan_services_witness:
  "gethostbyname example_network ''example.com'' = Inr ''93.184.216.34'' \<and>
   completion_order (length common_ports) (rev [0..<20]) \<and>
   (\<exists>r. snd (scan example_network ''2024-01-01T00:00:00'' (rev [0..<20]) ''example.com'' [])
           = Inr r \<and>
         services r = [(22, ''SSH''), (80, ''HTTP''), (443, ''HTTPS'')] \<and>
         services r = map (\<lambda>p. (p, identify_service p)) (open_ports r))"
proof -
  from scan_services[OF example_resolves example_completion,
      of "''2024-01-01T00:00:00''" "[]"]
  obtain r where
    r: "snd (scan example_network ''2024-01-01T00:00:00'' (rev [0..<20]) ''example.com'' [])
          = Inr r"
    and s: "services r = map (\<lambda>p. (p, identify_service p)) (open_ports r)"
    by auto
  have "services (projr (snd (scan example_network ''2024-01-01T00:00:00'' (rev [0..<20])
                ''example.com'' []))) = [(22, ''SSH''), (80, ''HTTP''), (443, ''HTTPS'')]"
    by (simp add: example_scan)
  then have "services r = [(22, ''SSH''), (80, ''HTTP''), (443, ''HTTPS'')]"
    using r by simp
  with r s example_resolves example_completion show ?thesis by simp
qed

section \<open>The store\<close>

lemma create_scan_unfold:
  "create_scan new_id now tgt stype db =
     (case conn db of
        None \<Rightarrow> (db, Inl (AttributeError ''NoneType object has no attribute cursor''))
      | Some rows \<Rightarrow>
          if new_id \<in> scan_id ` set rows
          then (db, Inl (IntegrityError ''UNIQUE constraint failed: scans.scan_id''))
          else (db\<lparr>conn := Some (rows @
                  [\<lparr>scan_id = new_id, scan_target = tgt, scan_type = stype,
                    status = ''running'', created_at = now, completed_at = None,
                    results = None, analysis = None\<rparr>])\<rparr>, Inr new_id))"
  by (simp add: create_scan_def cursor_def then_do_def raises_def store_def returns_def
      split: option.splits)

lemma save_results_unfold:
  "save_results dumps_results dumps_analysis now sid res ana db =
     (case conn db of
        None \<Rightarrow> (db, Inl (AttributeError ''NoneType object has no attribute cursor''))
      | Some rows \<Rightarrow>
          (case dumps_results res of
             Inl e \<Rightarrow> (db, Inl e)
           | Inr res_text \<Rightarrow>
               (case dumps_analysis ana of
                  Inl e \<Rightarrow> (db, Inl e)
                | Inr ana_text \<Rightarrow>
                    (db\<lparr>conn := Some (map (\<lambda>row.
                       if scan_id row = sid
                       then row\<lparr>status := ''completed'', completed_at := Some now,
                                 results := Some res_text, analysis := Some ana_text\<rparr>
                       else row) rows)\<rparr>, Inr ()))))"
  by (simp add: save_results_def cursor_def then_do_def store_def lift_def
      split: option.splits sum.splits)

lemma find_snoc:
  "find P (xs @ [x]) =
     (case find P xs of Some y \<Rightarrow> Some y | None \<Rightarrow> if P x then Some x else None)"
  by (induction xs) simp_all

lemma status_find_saved:
  "map_option status (find (\<lambda>row. scan_id row = sid)
      (map (\<lambda>row. if scan_id row = sid'
                   then row\<lparr>status := ''completed'', completed_at := Some now,
                             results := Some res, analysis := Some ana\<rparr>
                   else row) rows))
     = (if sid' = sid
        then map_option (\<lambda>_. ''completed'') (find (\<lambda>row. scan_id row = sid) rows)
        else map_option status (find (\<lambda>row. scan_id row = sid) rows))"
  by (induction rows) auto

lemma find_scan_id:
  "find (\<lambda>row. scan_id row = sid) rows = Some row \<Longrightarrow> sid \<in> scan_id ` set rows"
  by (induction rows) (auto split: if_splits)

lemma find_saved:
  "find (\<lambda>row. scan_id row = sid) rows = Some row \<Longrightarrow>
   find (\<lambda>row. scan_id row = sid)
     (map (\<lambda>row. if scan_id row = sid
                  then row\<lparr>status := ''completed'', completed_at := Some now,
                            results := Some res, analysis := Some ana\<rparr>
                  else row) rows)
     = Some (row\<lparr>status := ''completed'', completed_at := Some now,
                 results := Some res, analysis := Some ana\<rparr>)"
  by (induction rows) (auto split: if_splits)

lemma status_of_create:
  "status_of sid (fst (create_scan new_id now tgt stype db)) =
     (if (\<exists>rows. conn db = Some rows \<and> new_id \<notin> scan_id ` set rows) \<and> new_id = sid
      then Some ''running'' else status_of sid db)"
  by (auto simp: create_scan_unfold status_of_def find_snoc find_None_iff
      split: option.splits dest: find_scan_id)

lemma status_of_save:
  "status_of sid (fst (save_results dumps_results dumps_analysis now sid' res ana db)) =
     (if sid' = sid \<and> \<not> isl (dumps_results res) \<and> \<not> isl (dumps_analysis ana)
      then map_option (\<lambda>_. ''completed'') (status_of sid db)
      else status_of sid db)"
  by (cases "conn db"; cases "dumps_results res"; cases "dumps_analysis ana")
     (simp_all add: save_results_unfold status_of_def status_find_saved option.map_comp
        comp_def)

lemma status_of_step_absent:
  "status_of sid db = None \<Longrightarrow>
     status_of sid (db_step dr da c db) = None \<or>
     status_of sid (db_step dr da c db) = Some ''running''"
  by (cases c) (simp_all add: status_of_create status_of_save)

lemma status_of_present_id:
  "status_of sid db = Some st \<Longrightarrow> \<exists>rows. conn db = Some rows \<and> sid \<in> scan_id ` set rows"
  by (auto simp: status_of_def split: option.splits dest: find_scan_id)

lemma status_of_step_present:
  "status_of sid db = Some st \<Longrightarrow>
     status_of sid (db_step dr da c db) = Some st \<or>
     status_of sid (db_step dr da c db) = Some ''completed''"
  by (cases c) (auto simp: status_of_create status_of_save dest: status_of_present_id)

lemma observed_completed:
  "status_of sid db = Some ''completed'' \<Longrightarrow>
     \<exists>n. observed dr da sid calls db = replicate n ''completed''"
proof (induction calls arbitrary: db)
  case Nil
  then show ?case by simp
next
  case (Cons c calls)
  have st: "status_of sid (db_step dr da c db) = Some ''completed''"
    using status_of_step_present[OF Cons.prems, of dr da c] by auto
  from Cons.IH[OF st] obtain n where
    "observed dr da sid calls (db_step dr da c db) = replicate n ''completed''"
    by blast
  then have "observed dr da sid (c # calls) db = replicate (Suc n) ''completed''"
    by (simp add: st)
  then show ?case by blast
qed

lemma observed_running:
  "status_of sid db = Some ''running'' \<Longrightarrow>
     \<exists>m n. observed dr da sid calls db = replicate m ''running'' @ replicate n ''completed''"
proof (induction calls arbitrary: db)
  case Nil
  then show ?case by simp
next
  case (Cons c calls)
  from status_of_step_present[OF Cons.prems, of dr da c]
  consider (running) "status_of sid (db_step dr da c db) = Some ''running''"
    | (completed) "status_of sid (db_step dr da c db) = Some ''completed''"
    by auto
  then show ?case
  proof cases
    case running
    from Cons.IH[OF running] obtain m n where
      "observed dr da sid calls (db_step dr da c db)
         = replicate m ''running'' @ replicate n ''completed''"
      by blast
    then have "observed dr da sid (c # calls) db
                 = replicate (Suc m) ''running'' @ replicate n ''completed''"
      by (simp add: running)
    then show ?thesis by blast
  next
    case completed
    from observed_completed[OF completed] obtain n where
      "observed dr da sid calls (db_step dr da c db) = replicate n ''completed''"
      by blast
    then have "observed dr da sid (c # calls) db
                 = replicate 0 ''running'' @ replicate (Suc n) ''completed''"
      by (simp add: completed)
    then show ?thesis by blast
  qed
qed

lemma observed_absent:
  "status_of sid db = None \<Longrightarrow>
     \<exists>m n. observed dr da sid calls db = replicate m ''running'' @ replicate n ''completed''"
proof (induction calls arbitrary: db)
  case Nil
  then show ?case by simp
next
  case (Cons c calls)
  from status_of_step_absent[OF Cons.prems, of dr da c]
  consider (absent) "status_of sid (db_step dr da c db) = None"
    | (running) "status_of sid (db_step dr da c db) = Some ''running''"
    by auto
  then show ?case
  proof cases
    case absent
    from Cons.IH[OF absent] show ?thesis by (simp add: absent)
  next
    case running
    from observed_running[OF running] obtain m n where
      "observed dr da sid calls (db_step dr da c db)
         = replicate m ''running'' @ replicate n ''completed''"
      by blast
    then have "observed dr da sid (c # calls) db
                 = replicate (Suc m) ''running'' @ replicate n ''completed''"
      by (simp add: running)
    then show ?thesis by blast
  qed
qed

lemma create_scan_fresh:
  assumes "conn db = Some rows" and "new_id \<notin> scan_id ` set rows"
  shows "create_scan new_id now tgt stype db =
           (db\<lparr>conn := Some (rows @
                  [\<lparr>scan_id = new_id, scan_target = tgt, scan_type = stype,
                    status = ''running'', created_at = now, completed_at = None,
                    results = None, analysis = None\<rparr>])\<rparr>, Inr new_id)"
  by (simp add: create_scan_unfold assms)

lemma create_scan_fails:
  assumes "\<not> (\<exists>rows. conn db = Some rows \<and> new_id \<notin> scan_id ` set rows)"
  shows "\<exists>e. create_scan new_id now tgt stype db = (db, Inl e)"
  using assms by (auto simp: create_scan_unfold split: option.splits)

lemma status_of_created:
  assumes "conn db = Some rows" and "new_id \<notin> scan_id ` set rows"
  shows "status_of new_id (fst (create_scan new_id now tgt stype db)) = Some ''running''"
  using assms by (simp add: status_of_create)

section \<open>The analyzer\<close>


lemma parse_json_reply_pure:
  "parse_json_reply llm reply s = (s, snd (parse_json_reply llm reply ()))"
  by (simp add: parse_json_reply_def Let_def then_do_def lift_def raises_def split_def
      split: sum.splits list.splits)

lemma generate_summary_unfold:
  "generate_summary llm tgt d s =
     (s, Inr (case chat_completion llm (SummaryPrompt tgt d) of
                Inl e \<Rightarrow> ''Summary generation failed: '' @ str e
              | Inr content \<Rightarrow> strip content))"
  by (simp add: generate_summary_def try_except_def then_do_def lift_def returns_def
      split: sum.splits)

lemma calculate_risk_score_unfold:
  "calculate_risk_score llm d s =
     (s, Inr (case chat_completion llm (RiskScorePrompt d) of
                Inl e \<Rightarrow> 50
              | Inr content \<Rightarrow>
                  (case int_of_text llm (strip content) of Inl e \<Rightarrow> 50 | Inr n \<Rightarrow> n)))"
  by (simp add: calculate_risk_score_def try_except_def then_do_def lift_def returns_def
      split: sum.splits)

lemma json_method_unfold:
  "try_except (then_do (lift (chat_completion llm p)) (parse_json_reply llm))
     (\<lambda>e. returns placeholder) s =
     (s, Inr (case chat_completion llm p of
                Inl e \<Rightarrow> placeholder
              | Inr content \<Rightarrow>
                  (case snd (parse_json_reply llm content ()) of
                     Inl e \<Rightarrow> placeholder
                   | Inr j \<Rightarrow> j)))"
proof (cases "chat_completion llm p")
  case (Inl e)
  then show ?thesis
    by (simp add: try_except_def then_do_def lift_def returns_def)
next
  case (Inr content)
  then show ?thesis
    using parse_json_reply_pure[of llm content s]
    by (simp add: try_except_def then_do_def lift_def returns_def split: sum.splits)
qed

lemma analyze_attack_surface_unfold:
  "analyze_attack_surface llm d s = (s, Inr (projr (snd (analyze_attack_surface llm d ()))))"
  unfolding analyze_attack_surface_def by (simp add: json_method_unfold)

lemma identify_vulnerabilities_unfold:
  "identify_vulnerabilities llm d s = (s, Inr (projr (snd (identify_vulnerabilities llm d ()))))"
  unfolding identify_vulnerabilities_def by (simp add: json_method_unfold)

lemma generate_recommendations_unfold:
  "generate_recommendations llm tgt d s
     = (s, Inr (projr (snd (generate_recommendations llm tgt d ()))))"
  unfolding generate_recommendations_def by (simp add: json_method_unfold)

lemma find_correlations_unfold:
  "find_correlations llm d s = (s, Inr (projr (snd (find_correlations llm d ()))))"
  unfolding find_correlations_def by (simp add: json_method_unfold)

lemma then_do_returned: "m s = (s', Inr v) \<Longrightarrow> then_do m f s = f v s'"
  by (simp add: then_do_def)

lemma try_except_returned: "m s = (s', Inr v) \<Longrightarrow> try_except m h s = (s', Inr v)"
  by (simp add: try_except_def)

lemma analyze_unfold:
  assumes "prepare_intelligence_data llm res = Inr d"
  shows "analyze llm now tgt res =
     Inr \<lparr>analysis_target = tgt, analysis_timestamp = now,
          summary = projr (snd (generate_summary llm tgt d ())),
          risk_score = projr (snd (calculate_risk_score llm d ())),
          attack_surface = projr (snd (analyze_attack_surface llm d ())),
          vulnerabilities = projr (snd (identify_vulnerabilities llm d ())),
          recommendations = projr (snd (generate_recommendations llm tgt d ())),
          correlations = projr (snd (find_correlations llm d ())),
          analysis_error = None\<rparr>"
proof -
  let ?a0 = "\<lparr>analysis_target = tgt, analysis_timestamp = now, summary = [], risk_score = 0,
             attack_surface = JDict [], vulnerabilities = JList [], recommendations = JList [],
             correlations = JList [], analysis_error = None\<rparr>"
  let ?v1 = "projr (snd (generate_summary llm tgt d ()))"
  let ?v2 = "projr (snd (calculate_risk_score llm d ()))"
  let ?v3 = "projr (snd (analyze_attack_surface llm d ()))"
  let ?v4 = "projr (snd (identify_vulnerabilities llm d ()))"
  let ?v5 = "projr (snd (generate_recommendations llm tgt d ()))"
  let ?v6 = "projr (snd (find_correlations llm d ()))"
  have m1: "\<And>s :: llm_analysis. generate_summary llm tgt d s = (s, Inr ?v1)"
    by (simp add: generate_summary_unfold)
  have m2: "\<And>s :: llm_analysis. calculate_risk_score llm d s = (s, Inr ?v2)"
    by (simp add: calculate_risk_score_unfold)
  have st: "\<And>f (s :: llm_analysis). store f s = (f s, Inr ())"
    by (simp add: store_def)
  have "(then_do (generate_summary llm tgt d) (\<lambda>v.
         then_do (store (\<lambda>a. a\<lparr>summary := v\<rparr>)) (\<lambda>_.
         then_do (calculate_risk_score llm d) (\<lambda>v.
         then_do (store (\<lambda>a. a\<lparr>risk_score := v\<rparr>)) (\<lambda>_.
         then_do (analyze_attack_surface llm d) (\<lambda>v.
         then_do (store (\<lambda>a. a\<lparr>attack_surface := v\<rparr>)) (\<lambda>_.
         then_do (identify_vulnerabilities llm d) (\<lambda>v.
         then_do (store (\<lambda>a. a\<lparr>vulnerabilities := v\<rparr>)) (\<lambda>_.
         then_do (generate_recommendations llm tgt d) (\<lambda>v.
         then_do (store (\<lambda>a. a\<lparr>recommendations := v\<rparr>)) (\<lambda>_.
         then_do (find_correlations llm d) (\<lambda>v.
         store (\<lambda>a. a\<lparr>correlations := v\<rparr>))))))))))))) ?a0
       = (?a0\<lparr>summary := ?v1, risk_score := ?v2, attack_surface := ?v3, vulnerabilities := ?v4,
               recommendations := ?v5, correlations := ?v6\<rparr>, Inr ())"
    by (simp add: then_do_returned[OF m1] then_do_returned[OF st] then_do_returned[OF m2]
        then_do_returned[OF analyze_attack_surface_unfold]
        then_do_returned[OF identify_vulnerabilities_unfold]
        then_do_returned[OF generate_recommendations_unfold]
        then_do_returned[OF find_correlations_unfold] st)
  then show ?thesis
    by (simp add: analyze_def assms Let_def try_except_returned)
qed

section \<open>The scan request\<close>


lemma then_do_returns: "then_do (returns v) f = f v"
  by (rule ext) (simp add: then_do_def returns_def)

lemma then_do_assoc: "then_do (then_do m f) g = then_do m (\<lambda>v. then_do (f v) g)"
  by (rule ext) (simp add: then_do_def split: prod.splits sum.splits)

lemma then_do_lift_Inl: "then_do (lift (Inl e)) f s = (s, Inl e)"
  by (simp add: then_do_def lift_def)

lemma then_do_lift_Inr: "then_do (lift (Inr v)) f s = f v s"
  by (simp add: then_do_def lift_def)

lemma module_chain:
  "then_do (scan_if_requested ''domain'' modules (domain_intel app) tgt []) (\<lambda>res1.
   then_do (scan_if_requested ''web'' modules (web_intel app) tgt res1) (\<lambda>res2.
   then_do (scan_if_requested ''network'' modules (network_intel app) tgt res2) (\<lambda>res3.
   then_do (scan_if_requested ''social'' modules (social_intel app) tgt res3) (\<lambda>res4.
   then_do (scan_if_requested ''threat'' modules (threat_intel app) tgt res4) k))))
   = then_do (run_modules (dispatched app modules) tgt []) k"
  by (simp add: scan_if_requested_def dispatched_def then_do_returns then_do_assoc)

lemma run_modules_raises:
  "find (\<lambda>(name, module_scan). isl (module_scan tgt)) ms = Some (name, module_scan) \<Longrightarrow>
   run_modules ms tgt res s = (s, Inl (projl (module_scan tgt)))"
proof (induction ms arbitrary: res)
  case Nil
  then show ?case by simp
next
  case (Cons m ms)
  obtain n f where m: "m = (n, f)" by (cases m)
  show ?case
  proof (cases "f tgt")
    case (Inl e)
    then show ?thesis using Cons.prems by (simp add: m then_do_lift_Inl)
  next
    case (Inr v)
    then show ?thesis using Cons by (simp add: m then_do_lift_Inr)
  qed
qed

lemma run_modules_returns:
  "find (\<lambda>(name, module_scan). isl (module_scan tgt)) ms = None \<Longrightarrow>
   distinct (map fst ms) \<Longrightarrow> fst ` set ms \<inter> fst ` set res = {} \<Longrightarrow>
   run_modules ms tgt res s
     = (s, Inr (res @ map (\<lambda>(name, module_scan). (name, projr (module_scan tgt))) ms))"
proof (induction ms arbitrary: res)
  case Nil
  then show ?case by (simp add: returns_def)
next
  case (Cons m ms)
  obtain n f where m: "m = (n, f)" by (cases m)
  from Cons.prems(1) obtain v where v: "f tgt = Inr v"
    by (cases "f tgt") (simp_all add: m)
  have new: "n \<notin> fst ` set res" using Cons.prems(3) by (auto simp: m)
  have "run_modules ms tgt (res @ [(n, v)]) s
     = (s, Inr ((res @ [(n, v)]) @ map (\<lambda>(name, module_scan). (name, projr (module_scan tgt))) ms))"
    using Cons.prems by (intro Cons.IH) (auto simp: m v)
  then show ?case by (simp add: m v then_do_lift_Inr update_new_key[OF new])
qed

lemma distinct_dispatched: "distinct (map fst (dispatched app modules))"
  by (simp add: dispatched_def)

lemma dispatched_names:
  "map fst (dispatched app modules)
     = filter (\<lambda>name. name \<in> set modules) [''domain'', ''web'', ''network'', ''social'', ''threat'']"
  by (simp add: dispatched_def)

lemma start_scan_body_eq:
  "start_scan_body app tgt stype modules =
     then_do (create_scan (uuid4 app) (utcnow app 0) tgt stype) (\<lambda>sid.
     then_do (run_modules (dispatched app modules) tgt []) (\<lambda>res.
     then_do (lift (analyze (llm_analyzer app) (utcnow app 1) tgt res)) (\<lambda>ana.
     then_do (save_results (json_dumps_results app) (json_dumps_analysis app)
                (utcnow app 2) sid res ana) (\<lambda>_.
     returns (ReconResponse sid tgt ''completed'' res ana (utcnow app 3))))))"
  unfolding start_scan_body_def by (simp only: module_chain)

lemma then_do_raised: "m s = (s', Inl e) \<Longrightarrow> then_do m f s = (s', Inl e)"
  by (simp add: then_do_def)

lemma run_modules_no_raise:
  "find (\<lambda>(name, module_scan). isl (module_scan tgt)) ms = None \<Longrightarrow>
   \<exists>v. run_modules ms tgt res s = (s, Inr v)"
proof (induction ms arbitrary: res)
  case Nil
  then show ?case by (simp add: returns_def)
next
  case (Cons m ms)
  obtain n f where m: "m = (n, f)" by (cases m)
  from Cons.prems obtain v where v: "f tgt = Inr v"
    by (cases "f tgt") (simp_all add: m)
  from Cons.prems have "find (\<lambda>(name, module_scan). isl (module_scan tgt)) ms = None"
    by (simp add: m v)
  from Cons.IH[OF this] show ?case
    by (simp add: m v then_do_lift_Inr)
qed

lemma start_scan_not_created:
  assumes "\<not> (\<exists>rows. conn db = Some rows \<and> uuid4 app \<notin> scan_id ` set rows)"
  shows "\<exists>detail. start_scan app tgt stype modules db = (db, Inl (HTTPException 500 detail))"
proof -
  from create_scan_fails[OF assms] obtain e where
    "create_scan (uuid4 app) (utcnow app 0) tgt stype db = (db, Inl e)"
    by blast
  then show ?thesis
    by (simp add: start_scan_def start_scan_body_eq then_do_def)
qed

lemma start_scan_module_raises:
  assumes "conn db = Some rows" and "uuid4 app \<notin> scan_id ` set rows"
    and "find (\<lambda>(name, module_scan). isl (module_scan tgt)) (dispatched app modules)
           = Some (name, module_scan)"
  shows "start_scan app tgt stype modules db =
           (fst (create_scan (uuid4 app) (utcnow app 0) tgt stype db),
            Inl (HTTPException 500 (str (projl (module_scan tgt)))))"
  by (simp add: start_scan_def start_scan_body_eq then_do_def create_scan_unfold assms(1,2)
      run_modules_raises[OF assms(3)])

lemma start_scan_modules_return:
  assumes "conn db = Some rows" and "uuid4 app \<notin> scan_id ` set rows"
    and "find (\<lambda>(name, module_scan). isl (module_scan tgt)) (dispatched app modules) = None"
  shows "start_scan app tgt stype modules db =
           (let created = fst (create_scan (uuid4 app) (utcnow app 0) tgt stype db);
                res = map (\<lambda>(name, module_scan). (name, projr (module_scan tgt)))
                        (dispatched app modules)
            in case analyze (llm_analyzer app) (utcnow app 1) tgt res of
                 Inl e \<Rightarrow> (created, Inl (HTTPException 500 (str e)))
               | Inr ana \<Rightarrow>
                   (case json_dumps_results app res of
                      Inl e \<Rightarrow> (created, Inl (HTTPException 500 (str e)))
                    | Inr res_text \<Rightarrow>
                        (case json_dumps_analysis app ana of
                           Inl e \<Rightarrow> (created, Inl (HTTPException 500 (str e)))
                         | Inr ana_text \<Rightarrow>
                             (fst (save_results (json_dumps_results app)
                                     (json_dumps_analysis app) (utcnow app 2) (uuid4 app)
                                     res ana created),
                              Inr (ReconResponse (uuid4 app) tgt ''completed'' res ana
                                     (utcnow app 3))))))"
proof -
  have mods: "\<And>s :: database.
      run_modules (dispatched app modules) tgt [] s
        = (s, Inr (map (\<lambda>(name, module_scan). (name, projr (module_scan tgt)))
                    (dispatched app modules)))"
    using run_modules_returns[OF assms(3) distinct_dispatched, of "[]"] by simp
  show ?thesis
    by (simp add: start_scan_def start_scan_body_eq then_do_def create_scan_unfold
        save_results_unfold assms(1,2) mods lift_def returns_def Let_def split: sum.splits)
qed

lemma start_scan_returns:
  assumes "snd (start_scan app tgt stype modules db) = Inr resp"
  shows "\<exists>rows ana res_text ana_text.
           conn db = Some rows \<and> uuid4 app \<notin> scan_id ` set rows \<and>
           find (\<lambda>(name, module_scan). isl (module_scan tgt)) (dispatched app modules) = None \<and>
           analyze (llm_analyzer app) (utcnow app 1) tgt
             (map (\<lambda>(name, module_scan). (name, projr (module_scan tgt)))
                (dispatched app modules)) = Inr ana \<and>
           json_dumps_results app
             (map (\<lambda>(name, module_scan). (name, projr (module_scan tgt)))
                (dispatched app modules)) = Inr res_text \<and>
           json_dumps_analysis app ana = Inr ana_text \<and>
           resp = ReconResponse (uuid4 app) tgt ''completed''
             (map (\<lambda>(name, module_scan). (name, projr (module_scan tgt)))
                (dispatched app modules)) ana (utcnow app 3)"
proof -
  have "\<exists>rows. conn db = Some rows \<and> uuid4 app \<notin> scan_id ` set rows"
  proof (rule ccontr)
    assume "\<not> ?thesis"
    from start_scan_not_created[OF this, of tgt stype modules] assms show False by auto
  qed
  then obtain rows where rows: "conn db = Some rows" "uuid4 app \<notin> scan_id ` set rows"
    by blast
  have none: "find (\<lambda>(name, module_scan). isl (module_scan tgt)) (dispatched app modules) = None"
  proof (cases "find (\<lambda>(name, module_scan). isl (module_scan tgt)) (dispatched app modules)")
    case None
    then show ?thesis .
  next
    case (Some m)
    obtain n f where "m = (n, f)" by (cases m)
    with Some start_scan_module_raises[OF rows, of tgt modules n f stype] assms
    show ?thesis by simp
  qed
  from start_scan_modules_return[OF rows none, of stype] assms
  show ?thesis using rows none by (auto simp: Let_def split: sum.splits)
qed

lemma start_scan_status:
  assumes "conn db = Some rows" and "uuid4 app \<notin> scan_id ` set rows"
  shows "status_of (uuid4 app) (fst (start_scan app tgt stype modules db)) =
           (if isl (snd (start_scan app tgt stype modules db)) then Some ''running''
            else Some ''completed'')"
proof (cases "find (\<lambda>(name, module_scan). isl (module_scan tgt)) (dispatched app modules)")
  case None
  show ?thesis
    by (auto simp: start_scan_modules_return[OF assms None] Let_def status_of_save
        status_of_created[OF assms] split: sum.splits)
next
  case (Some m)
  obtain n f where "m = (n, f)" by (cases m)
  with Some have "find (\<lambda>(name, module_scan). isl (module_scan tgt)) (dispatched app modules)
           = Some (n, f)" by simp
  from start_scan_module_raises[OF assms this] show ?thesis
    by (simp add: status_of_created[OF assms])
qed

section \<open>The scan request of app\_v2.py\<close>

lemma call_analyze_v2_raises:
  "call_analyze_v2 app res s =
     (s, Inl (TypeError ''got an unexpected keyword argument target_type''))"
  by (simp add: call_analyze_v2_def bind_arguments_def analyze_parameters_def then_do_def
      lift_def)

lemma call_update_scan_raises:
  "call_update_scan s = (s, Inl (AttributeError ''Database object has no attribute update_scan''))"
  by (simp add: call_update_scan_def database_getattr_def database_attributes_def then_do_def
      lift_def)

lemma v2_domain_branch:
  "then_do (run_modules ms tgt []) (\<lambda>res.
     then_do (call_analyze_v2 app res) (\<lambda>ana. returns (res, ana))) s =
   (s, Inl (case find (\<lambda>(name, module_scan). isl (module_scan tgt)) ms of
              None \<Rightarrow> TypeError ''got an unexpected keyword argument target_type''
            | Some (name, module_scan) \<Rightarrow> projl (module_scan tgt)))"
proof (cases "find (\<lambda>(name, module_scan). isl (module_scan tgt)) ms")
  case None
  from run_modules_no_raise[OF None, of "[]" s] obtain v where
    "run_modules ms tgt [] s = (s, Inr v)"
    by blast
  then show ?thesis
    by (simp add: then_do_def call_analyze_v2_raises None)
next
  case (Some m)
  obtain n f where m: "m = (n, f)" by (cases m)
  with Some have "run_modules ms tgt [] s = (s, Inl (projl (f tgt)))"
    using run_modules_raises[of tgt ms n f "[]" s] by simp
  then show ?thesis by (simp add: then_do_def Some m)
qed

lemma v2_person_branch:
  "then_do (lift (person_intel app tgt state dob)) (\<lambda>payload.
     then_do (returns (AList.update ''person'' payload [])) (\<lambda>res.
     then_do (call_analyze_v2 app res) (\<lambda>ana.
     returns (res, ana)))) s =
   (s, Inl (case person_intel app tgt state dob of
              Inl e \<Rightarrow> e
            | Inr payload \<Rightarrow> TypeError ''got an unexpected keyword argument target_type''))"
  by (cases "person_intel app tgt state dob")
     (simp_all add: then_do_def lift_def returns_def call_analyze_v2_raises)


lemma start_scan_v2_created:
  assumes "conn db = Some rows" and "uuid4 app \<notin> scan_id ` set rows"
  shows "start_scan_v2 app tgt stype target_type modules state dob db =
           (fst (create_scan (uuid4 app) (utcnow app 0) tgt stype db),
            Inl (HTTPException 500 (str
              (if target_type = ''person'' then
                 (case person_intel app tgt state dob of
                    Inl e \<Rightarrow> e
                  | Inr payload \<Rightarrow> TypeError ''got an unexpected keyword argument target_type'')
               else
                 (case find (\<lambda>(name, module_scan). isl (module_scan tgt))
                         (dispatched app modules) of
                    None \<Rightarrow> TypeError ''got an unexpected keyword argument target_type''
                  | Some (name, module_scan) \<Rightarrow> projl (module_scan tgt))))))"
proof -
  let ?created = "db\<lparr>conn := Some (rows @
                  [\<lparr>scan_id = uuid4 app, scan_target = tgt, scan_type = stype,
                    status = ''running'', created_at = utcnow app 0, completed_at = None,
                    results = None, analysis = None\<rparr>])\<rparr>"
  let ?e = "if target_type = ''person'' then
              (case person_intel app tgt state dob of
                 Inl e \<Rightarrow> e
               | Inr payload \<Rightarrow> TypeError ''got an unexpected keyword argument target_type'')
            else
              (case find (\<lambda>(name, module_scan). isl (module_scan tgt))
                      (dispatched app modules) of
                 None \<Rightarrow> TypeError ''got an unexpected keyword argument target_type''
               | Some (name, module_scan) \<Rightarrow> projl (module_scan tgt))"
  have cr: "create_scan (uuid4 app) (utcnow app 0) tgt stype db = (?created, Inr (uuid4 app))"
    by (rule create_scan_fresh[OF assms])
  have created: "fst (create_scan (uuid4 app) (utcnow app 0) tgt stype db) = ?created"
    by (simp only: cr fst_conv)
  have body: "start_scan_v2_body app tgt stype target_type modules state dob db
                = (?created, Inl ?e)"
  proof (cases "target_type = ''person''")
    case person: True
    have e: "?e = (case person_intel app tgt state dob of
                 Inl e \<Rightarrow> e
               | Inr payload \<Rightarrow> TypeError ''got an unexpected keyword argument target_type'')"
      by (simp only: if_P[OF person])
    show ?thesis
      unfolding start_scan_v2_body_def e
      apply (subst then_do_returned[where m = "create_scan (uuid4 app) (utcnow app 0) tgt stype"
            and s = db, OF cr])
      apply (rule then_do_raised)
      apply (subst if_P[OF person])
      apply (rule v2_person_branch)
      done
  next
    case domain: False
    have e: "?e = (case find (\<lambda>(name, module_scan). isl (module_scan tgt))
                      (dispatched app modules) of
                 None \<Rightarrow> TypeError ''got an unexpected keyword argument target_type''
               | Some (name, module_scan) \<Rightarrow> projl (module_scan tgt))"
      by (simp only: if_not_P[OF domain])
    show ?thesis
      unfolding start_scan_v2_body_def module_chain e
      apply (subst then_do_returned[where m = "create_scan (uuid4 app) (utcnow app 0) tgt stype"
            and s = db, OF cr])
      apply (rule then_do_raised)
      apply (subst if_not_P[OF domain])
      apply (rule v2_domain_branch)
      done
  qed
  show ?thesis
    unfolding start_scan_v2_def body created by (simp only: prod.case sum.case)
qed

section \<open>The example application\<close>

lemma example_analyze:
  "analyze example_llm ''2024-01-01T00:00:01'' ''example.com'' res = Inr example_analysis"
proof -
  have p: "prepare_intelligence_data example_llm res = Inr ''Intelligence data''"
    by (simp add: example_llm_def)
  show ?thesis
    unfolding analyze_unfold[OF p] generate_summary_unfold calculate_risk_score_unfold
      analyze_attack_surface_def identify_vulnerabilities_def generate_recommendations_def
      find_correlations_def json_method_unfold
    by (simp add: example_analysis_def example_llm_def)
qed

lemma example_app_facts:
  "conn example_db = Some []"
  "uuid4 example_app = ''scan-1''"
  "llm_analyzer example_app = example_llm"
  "utcnow example_app 0 = ''2024-01-01T00:00:00''"
  "utcnow example_app 1 = ''2024-01-01T00:00:01''"
  "utcnow example_app (Suc 0) = ''2024-01-01T00:00:01''"
  "utcnow example_app 2 = ''2024-01-01T00:00:02''"
  "utcnow example_app 3 = ''2024-01-01T00:00:03''"
  by (simp_all add: example_db_def example_app_def)

lemma example_app_dumps:
  "\<exists>text. json_dumps_results example_app res = Inr text"
  "\<exists>text. json_dumps_analysis example_app ana = Inr text"
  by (simp_all add: example_app_def)

lemma example_app_no_module_raises:
  "find (\<lambda>(name, module_scan). isl (module_scan tgt)) (dispatched example_app modules) = None"
  by (simp add: dispatched_def example_app_def)

lemma example_start_scan:
  "snd (start_scan example_app ''example.com'' ''full'' modules example_db) =
     Inr (ReconResponse ''scan-1'' ''example.com'' ''completed''
            (map (\<lambda>(name, module_scan). (name, projr (module_scan ''example.com'')))
               (dispatched example_app modules))
            example_analysis ''2024-01-01T00:00:03'')"
proof -
  let ?res = "map (\<lambda>(name, module_scan). (name, projr (module_scan ''example.com'')))
               (dispatched example_app modules)"
  have f: "uuid4 example_app \<notin> scan_id ` set ([] :: scan_row list)"
    by simp
  obtain res_text where r: "json_dumps_results example_app ?res = Inr res_text"
    using example_app_dumps(1) by blast
  obtain ana_text where a: "json_dumps_analysis example_app example_analysis = Inr ana_text"
    using example_app_dumps(2) by blast
  show ?thesis
    by (simp add: start_scan_modules_return[OF example_app_facts(1) f example_app_no_module_raises]
        Let_def example_app_facts example_analyze r a)
qed

lemma get_scan_created:
  assumes "conn db = Some rows" and "new_id \<notin> scan_id ` set rows"
  shows "snd (get_scan loads new_id (fst (create_scan new_id now tgt stype db))) =
           Inr (Some (ScanDict new_id tgt stype ''running'' now None (JDict []) (JDict [])))"
proof -
  have "find (\<lambda>row. scan_id row = new_id) rows = None"
    using assms(2) by (auto simp: find_None_iff)
  then show ?thesis
    by (simp add: create_scan_fresh[OF assms] get_scan_def cursor_def then_do_def find_snoc
        lift_def returns_def loads_column_def)
qed

section \<open>The claims about the scan request and the store\<close>

text \<open>
  C1, as the claim states it, fails: with the modules domain and web requested and
  the web module raising, \<^verbatim>\<open>start_scan\<close> of app.py raises HTTP 500 with the message
  of the module's exception, the payload of the domain module is not returned, and
  the scan stays in status running.
\<close>

theorem module_exception_counterexample:
  "start_scan failing_web_app ''example.com'' ''full'' [''domain'', ''web''] example_db =
     (\<lparr>conn = Some [\<lparr>scan_id = ''scan-1'', scan_target = ''example.com'', scan_type = ''full'',
                      status = ''running'', created_at = ''2024-01-01T00:00:00'',
                      completed_at = None, results = None, analysis = None\<rparr>]\<rparr>,
      Inl (HTTPException 500 ''web module failed''))"
  by (simp add: start_scan_def start_scan_body_def scan_if_requested_def then_do_def
      create_scan_unfold lift_def returns_def failing_web_app_def example_app_def example_db_def)

text \<open>
  C1, amended: neither \<^verbatim>\<open>start_scan\<close> has a boundary around a module. With the scan
  record created, if a dispatched module's scan raises, the exception of the first
  such module reaches the only handler of \<^verbatim>\<open>start_scan\<close>: the caller gets HTTP 500
  with the exception's message, no result map is returned, nothing more is written
  and the scan stays in status running. This holds for \<^verbatim>\<open>start_scan\<close> of app.py, for
  the domain branch of \<^verbatim>\<open>start_scan\<close> of app\_v2.py, and for the person module in
  its person branch. In app.py, if no dispatched module raises, the analysis returns
  and \<^verbatim>\<open>json.dumps\<close> returns on the result map and on the analysis, the response has
  status completed and holds the payload of every dispatched module, and the scan is
  in status completed.
\<close>

theorem module_exception_fails_scan:
  assumes "conn db = Some rows" and "uuid4 app \<notin> scan_id ` set rows"
    and "conn db2 = Some rows2" and "uuid4 app2 \<notin> scan_id ` set rows2"
  shows "(\<forall>name module_scan.
            find (\<lambda>(name, module_scan). isl (module_scan tgt)) (dispatched app modules)
              = Some (name, module_scan) \<longrightarrow>
            start_scan app tgt stype modules db =
              (fst (create_scan (uuid4 app) (utcnow app 0) tgt stype db),
               Inl (HTTPException 500 (str (projl (module_scan tgt))))) \<and>
            status_of (uuid4 app) (fst (start_scan app tgt stype modules db)) = Some ''running'') \<and>
         (\<forall>name module_scan.
            target_type \<noteq> ''person'' \<and>
            find (\<lambda>(name, module_scan). isl (module_scan tgt)) (dispatched app2 modules)
              = Some (name, module_scan) \<longrightarrow>
            start_scan_v2 app2 tgt stype target_type modules state dob db2 =
              (fst (create_scan (uuid4 app2) (utcnow app2 0) tgt stype db2),
               Inl (HTTPException 500 (str (projl (module_scan tgt))))) \<and>
            status_of (uuid4 app2)
              (fst (start_scan_v2 app2 tgt stype target_type modules state dob db2))
              = Some ''running'') \<and>
         (\<forall>e.
            person_intel app2 tgt state dob = Inl e \<longrightarrow>
            start_scan_v2 app2 tgt stype ''person'' modules state dob db2 =
              (fst (create_scan (uuid4 app2) (utcnow app2 0) tgt stype db2),
               Inl (HTTPException 500 (str e))) \<and>
            status_of (uuid4 app2)
              (fst (start_scan_v2 app2 tgt stype ''person'' modules state dob db2))
              = Some ''running'') \<and>
         (\<forall>ana res_text ana_text.
            find (\<lambda>(name, module_scan). isl (module_scan tgt)) (dispatched app modules) = None \<and>
            analyze (llm_analyzer app) (utcnow app 1) tgt
              (map (\<lambda>(name, module_scan). (name, projr (module_scan tgt)))
                 (dispatched app modules)) = Inr ana \<and>
            json_dumps_results app
              (map (\<lambda>(name, module_scan). (name, projr (module_scan tgt)))
                 (dispatched app modules)) = Inr res_text \<and>
            json_dumps_analysis app ana = Inr ana_text \<longrightarrow>
            snd (start_scan app tgt stype modules db) =
              Inr (ReconResponse (uuid4 app) tgt ''completed''
                (map (\<lambda>(name, module_scan). (name, projr (module_scan tgt)))
                   (dispatched app modules)) ana (utcnow app 3)) \<and>
            status_of (uuid4 app) (fst (start_scan app tgt stype modules db)) = Some ''completed'')"
proof (intro conjI allI impI)
  fix name module_scan
  assume raised: "find (\<lambda>(name, module_scan). isl (module_scan tgt)) (dispatched app modules)
              = Some (name, module_scan)"
  show "start_scan app tgt stype modules db =
          (fst (create_scan (uuid4 app) (utcnow app 0) tgt stype db),
           Inl (HTTPException 500 (str (projl (module_scan tgt)))))"
    by (rule start_scan_module_raises[OF assms(1,2) raised])
  then show "status_of (uuid4 app) (fst (start_scan app tgt stype modules db)) = Some ''running''"
    by (simp add: status_of_created[OF assms(1,2)])
next
  fix name module_scan
  assume "target_type \<noteq> ''person'' \<and>
            find (\<lambda>(name, module_scan). isl (module_scan tgt)) (dispatched app2 modules)
              = Some (name, module_scan)"
  then show v2: "start_scan_v2 app2 tgt stype target_type modules state dob db2 =
              (fst (create_scan (uuid4 app2) (utcnow app2 0) tgt stype db2),
               Inl (HTTPException 500 (str (projl (module_scan tgt)))))"
    by (simp add: start_scan_v2_created[OF assms(3,4)])
  show "status_of (uuid4 app2)
              (fst (start_scan_v2 app2 tgt stype target_type modules state dob db2))
              = Some ''running''"
    by (simp add: v2 status_of_created[OF assms(3,4)])
next
  fix e
  assume "person_intel app2 tgt state dob = Inl e"
  then show v2: "start_scan_v2 app2 tgt stype ''person'' modules state dob db2 =
              (fst (create_scan (uuid4 app2) (utcnow app2 0) tgt stype db2),
               Inl (HTTPException 500 (str e)))"
    by (simp add: start_scan_v2_created[OF assms(3,4)])
  show "status_of (uuid4 app2)
              (fst (start_scan_v2 app2 tgt stype ''person'' modules state dob db2))
              = Some ''running''"
    by (simp add: v2 status_of_created[OF assms(3,4)])
next
  fix ana res_text ana_text
  assume ok: "find (\<lambda>(name, module_scan). isl (module_scan tgt)) (dispatched app modules) = None \<and>
            analyze (llm_analyzer app) (utcnow app 1) tgt
              (map (\<lambda>(name, module_scan). (name, projr (module_scan tgt)))
                 (dispatched app modules)) = Inr ana \<and>
            json_dumps_results app
              (map (\<lambda>(name, module_scan). (name, projr (module_scan tgt)))
                 (dispatched app modules)) = Inr res_text \<and>
            json_dumps_analysis app ana = Inr ana_text"
  then show res: "snd (start_scan app tgt stype modules db) =
              Inr (ReconResponse (uuid4 app) tgt ''completed''
                (map (\<lambda>(name, module_scan). (name, projr (module_scan tgt)))
                   (dispatched app modules)) ana (utcnow app 3))"
    by (simp add: start_scan_modules_return[OF assms(1,2)] Let_def)
  show "status_of (uuid4 app) (fst (start_scan app tgt stype modules db)) = Some ''completed''"
    by (simp add: start_scan_status[OF assms(1,2)] res)
qed

theorem module_exception_fails_scan_witness:
  "conn example_db = Some [] \<and> uuid4 failing_web_app \<notin> scan_id ` set [] \<and>
   uuid4 failing_app_v2 \<notin> scan_id ` set [] \<and>
   find (\<lambda>(name, module_scan). isl (module_scan ''example.com''))
     (dispatched failing_web_app [''domain'', ''web'']) = Some (''web'', web_intel failing_web_app) \<and>
   snd (start_scan failing_web_app ''example.com'' ''full'' [''domain'', ''web''] example_db)
     = Inl (HTTPException 500 ''web module failed'') \<and>
   status_of (uuid4 failing_web_app)
     (fst (start_scan failing_web_app ''example.com'' ''full'' [''domain'', ''web''] example_db))
     = Some ''running'' \<and>
   find (\<lambda>(name, module_scan). isl (module_scan ''example.com''))
     (dispatched failing_app_v2 [''domain'', ''web'']) = Some (''web'', web_intel failing_app_v2) \<and>
   snd (start_scan_v2 failing_app_v2 ''example.com'' ''full'' ''domain'' [''domain'', ''web'']
          None None example_db)
     = Inl (HTTPException 500 ''web module failed'') \<and>
   person_intel failing_app_v2 ''example.com'' None None = Inl (Exception ''person module failed'') \<and>
   snd (start_scan_v2 failing_app_v2 ''example.com'' ''full'' ''person'' [''domain'', ''web'']
          None None example_db)
     = Inl (HTTPException 500 ''person module failed'')"
proof -
  have c: "conn example_db = Some []"
    by (simp add: example_db_def)
  have f: "uuid4 failing_web_app \<notin> scan_id ` set ([] :: scan_row list)"
    by simp
  have f2: "uuid4 failing_app_v2 \<notin> scan_id ` set ([] :: scan_row list)"
    by simp
  have r: "find (\<lambda>(name, module_scan). isl (module_scan ''example.com''))
     (dispatched failing_web_app [''domain'', ''web'']) = Some (''web'', web_intel failing_web_app)"
    by (simp add: dispatched_def failing_web_app_def example_app_def)
  have m: "str (projl (web_intel failing_web_app ''example.com'')) = ''web module failed''"
    by (simp add: failing_web_app_def example_app_def)
  have r2: "find (\<lambda>(name, module_scan). isl (module_scan ''example.com''))
     (dispatched failing_app_v2 [''domain'', ''web'']) = Some (''web'', web_intel failing_app_v2)"
    by (simp add: dispatched_def failing_app_v2_def failing_web_app_def example_app_def app.defs)
  have m2: "str (projl (web_intel failing_app_v2 ''example.com'')) = ''web module failed''"
    by (simp add: failing_app_v2_def failing_web_app_def example_app_def app.defs)
  have p: "person_intel failing_app_v2 ''example.com'' None None
             = Inl (Exception ''person module failed'')"
    by (simp add: failing_app_v2_def app.defs)
  have d: "''domain'' \<noteq> ''person''"
    by simp
  note inst = module_exception_fails_scan[OF c f c f2, where tgt = "''example.com''"
      and modules = "[''domain'', ''web'']" and stype = "''full''" and target_type = "''domain''"
      and state = None and dob = None]
  from inst r have one:
    "start_scan failing_web_app ''example.com'' ''full'' [''domain'', ''web''] example_db =
       (fst (create_scan (uuid4 failing_web_app) (utcnow failing_web_app 0) ''example.com'' ''full''
          example_db),
        Inl (HTTPException 500 (str (projl (web_intel failing_web_app ''example.com'')))))"
    and st: "status_of (uuid4 failing_web_app)
       (fst (start_scan failing_web_app ''example.com'' ''full'' [''domain'', ''web''] example_db))
       = Some ''running''"
    by blast+
  from inst r2 d have two:
    "start_scan_v2 failing_app_v2 ''example.com'' ''full'' ''domain'' [''domain'', ''web'']
       None None example_db =
       (fst (create_scan (uuid4 failing_app_v2) (utcnow failing_app_v2 0) ''example.com'' ''full''
          example_db),
        Inl (HTTPException 500 (str (projl (web_intel failing_app_v2 ''example.com'')))))"
    by blast
  from inst p have three:
    "start_scan_v2 failing_app_v2 ''example.com'' ''full'' ''person'' [''domain'', ''web'']
       None None example_db =
       (fst (create_scan (uuid4 failing_app_v2) (utcnow failing_app_v2 0) ''example.com'' ''full''
          example_db),
        Inl (HTTPException 500 (str (Exception ''person module failed''))))"
    by blast
  show ?thesis
    using c r r2 p st by (simp add: one two three m m2)
qed

text \<open>
  C2, as the claim states it, fails: for the request with modules network, domain
  (every module returning) the result map has the keys domain, network, in that
  order; and for the request with modules web, dns it has the key web only.
\<close>

theorem result_keys_counterexample:
  "snd (start_scan example_app ''example.com'' ''full'' [''network'', ''domain''] example_db) =
     Inr (ReconResponse ''scan-1'' ''example.com'' ''completed''
            [(''domain'', ''domain data''), (''network'', ''network data'')]
            example_analysis ''2024-01-01T00:00:03'') \<and>
   snd (start_scan example_app ''example.com'' ''full'' [''web'', ''dns''] example_db) =
     Inr (ReconResponse ''scan-1'' ''example.com'' ''completed''
            [(''web'', ''web data'')] example_analysis ''2024-01-01T00:00:03'')"
  by (simp add: example_start_scan) (simp add: dispatched_def example_app_def)

text \<open>
  C2, amended: whenever \<^verbatim>\<open>start_scan\<close> returns a response, the result map it
  returns is the map it handed to the analysis, and its keys are the names among
  domain, web, network, social, threat that the request lists, in this fixed order
  whatever their order in the request; so the key set is exactly the requested set
  when the request lists only these names. When the scan record is created, no
  dispatched module raises and the data preparation of the analysis returns, the
  analysis returns, and \<^verbatim>\<open>start_scan\<close> returns a response with this map whenever
  \<^verbatim>\<open>json.dumps\<close> returns on the map and on the analysis.
\<close>

theorem result_keys_fixed_order:
  "(\<forall>resp. snd (start_scan app tgt stype modules db) = Inr resp \<longrightarrow>
      map fst (response_results resp)
        = filter (\<lambda>name. name \<in> set modules) [''domain'', ''web'', ''network'', ''social'', ''threat''] \<and>
      analyze (llm_analyzer app) (utcnow app 1) tgt (response_results resp)
        = Inr (response_analysis resp) \<and>
      (set modules \<subseteq> {''domain'', ''web'', ''network'', ''social'', ''threat''} \<longrightarrow>
         set (map fst (response_results resp)) = set modules)) \<and>
   (\<forall>rows d.
      conn db = Some rows \<and> uuid4 app \<notin> scan_id ` set rows \<and>
      find (\<lambda>(name, module_scan). isl (module_scan tgt)) (dispatched app modules) = None \<and>
      prepare_intelligence_data (llm_analyzer app)
        (map (\<lambda>(name, module_scan). (name, projr (module_scan tgt))) (dispatched app modules))
        = Inr d \<longrightarrow>
      (\<exists>ana.
         analyze (llm_analyzer app) (utcnow app 1) tgt
           (map (\<lambda>(name, module_scan). (name, projr (module_scan tgt))) (dispatched app modules))
           = Inr ana \<and>
         (\<forall>res_text ana_text.
            json_dumps_results app
              (map (\<lambda>(name, module_scan). (name, projr (module_scan tgt)))
                 (dispatched app modules)) = Inr res_text \<and>
            json_dumps_analysis app ana = Inr ana_text \<longrightarrow>
            snd (start_scan app tgt stype modules db) =
              Inr (ReconResponse (uuid4 app) tgt ''completed''
                (map (\<lambda>(name, module_scan). (name, projr (module_scan tgt)))
                   (dispatched app modules)) ana (utcnow app 3)))))"
proof (intro conjI allI impI)
  fix resp
  assume ret: "snd (start_scan app tgt stype modules db) = Inr resp"
  let ?res = "map (\<lambda>(name, module_scan). (name, projr (module_scan tgt))) (dispatched app modules)"
  from start_scan_returns[OF ret] obtain ana where
    ana: "analyze (llm_analyzer app) (utcnow app 1) tgt ?res = Inr ana"
    and resp: "resp = ReconResponse (uuid4 app) tgt ''completed'' ?res ana (utcnow app 3)"
    by blast
  have "map fst ?res = map fst (dispatched app modules)"
    by auto
  then show keys: "map fst (response_results resp)
        = filter (\<lambda>name. name \<in> set modules) [''domain'', ''web'', ''network'', ''social'', ''threat'']"
    by (simp only: resp recon_response.sel dispatched_names)
  show "analyze (llm_analyzer app) (utcnow app 1) tgt (response_results resp)
        = Inr (response_analysis resp)"
    using ana by (simp add: resp)
  assume known: "set modules \<subseteq> {''domain'', ''web'', ''network'', ''social'', ''threat''}"
  have "set (map fst (response_results resp))
          = {name \<in> {''domain'', ''web'', ''network'', ''social'', ''threat''}. name \<in> set modules}"
    unfolding keys set_filter by simp
  with known show "set (map fst (response_results resp)) = set modules"
    by blast
next
  fix rows d
  let ?res = "map (\<lambda>(name, module_scan). (name, projr (module_scan tgt))) (dispatched app modules)"
  assume h: "conn db = Some rows \<and> uuid4 app \<notin> scan_id ` set rows \<and>
      find (\<lambda>(name, module_scan). isl (module_scan tgt)) (dispatched app modules) = None \<and>
      prepare_intelligence_data (llm_analyzer app) ?res = Inr d"
  then have c: "conn db = Some rows" and f: "uuid4 app \<notin> scan_id ` set rows"
    and n: "find (\<lambda>(name, module_scan). isl (module_scan tgt)) (dispatched app modules) = None"
    and p: "prepare_intelligence_data (llm_analyzer app) ?res = Inr d"
    by blast+
  from analyze_unfold[OF p] obtain ana where
    ana: "analyze (llm_analyzer app) (utcnow app 1) tgt ?res = Inr ana"
    by blast
  have "\<forall>res_text ana_text.
            json_dumps_results app ?res = Inr res_text \<and>
            json_dumps_analysis app ana = Inr ana_text \<longrightarrow>
            snd (start_scan app tgt stype modules db) =
              Inr (ReconResponse (uuid4 app) tgt ''completed'' ?res ana (utcnow app 3))"
    using ana by (simp add: start_scan_modules_return[OF c f n] Let_def)
  with ana show "\<exists>ana.
         analyze (llm_analyzer app) (utcnow app 1) tgt ?res = Inr ana \<and>
         (\<forall>res_text ana_text.
            json_dumps_results app ?res = Inr res_text \<and>
            json_dumps_analysis app ana = Inr ana_text \<longrightarrow>
            snd (start_scan app tgt stype modules db) =
              Inr (ReconResponse (uuid4 app) tgt ''completed'' ?res ana (utcnow app 3)))"
    by blast
qed

theorem result_keys_fixed_order_witness:
  "snd (start_scan example_app ''example.com'' ''full'' [''threat'', ''web''] example_db) =
     Inr (ReconResponse ''scan-1'' ''example.com'' ''completed''
            [(''web'', ''web data''), (''threat'', ''threat data'')]
            example_analysis ''2024-01-01T00:00:03'') \<and>
   map fst [(''web'', ''web data''), (''threat'', ''threat data'')]
     = filter (\<lambda>name. name \<in> set [''threat'', ''web''])
         [''domain'', ''web'', ''network'', ''social'', ''threat'']"
proof -
  have ret: "snd (start_scan example_app ''example.com'' ''full'' [''threat'', ''web''] example_db) =
     Inr (ReconResponse ''scan-1'' ''example.com'' ''completed''
            [(''web'', ''web data''), (''threat'', ''threat data'')]
            example_analysis ''2024-01-01T00:00:03'')"
    by (simp add: example_start_scan) (simp add: dispatched_def example_app_def)
  from result_keys_fixed_order[of example_app "''example.com''" "''full''" "[''threat'', ''web'']"
      example_db] ret
  have "map fst (response_results (ReconResponse ''scan-1'' ''example.com'' ''completed''
            [(''web'', ''web data''), (''threat'', ''threat data'')]
            example_analysis ''2024-01-01T00:00:03''))
     = filter (\<lambda>name. name \<in> set [''threat'', ''web''])
         [''domain'', ''web'', ''network'', ''social'', ''threat'']"
    by blast
  with ret show ?thesis by simp
qed

text \<open>
  C4: the status of a scan in the store. For a scan that is not in the store yet,
  the statuses a reader sees after each call of any sequence of calls of
  \<^verbatim>\<open>create_scan\<close> and \<^verbatim>\<open>save_results\<close> are some number of running followed by some
  number of completed, and nothing else. \<^verbatim>\<open>create_scan\<close> writes the row with
  status running, \<^verbatim>\<open>created_at\<close> set and \<^verbatim>\<open>completed_at\<close> unset; \<^verbatim>\<open>save_results\<close>,
  when \<^verbatim>\<open>json.dumps\<close> returns on its two arguments, sets status completed and
  \<^verbatim>\<open>completed_at\<close> in the row of the scan. After \<^verbatim>\<open>start_scan\<close>, the scan it
  created is completed if a response was returned and running otherwise.
\<close>

theorem scan_status_running_then_completed:
  "(status_of sid db = None \<longrightarrow>
      (\<exists>m n. observed dumps_results dumps_analysis sid calls db
                = replicate m ''running'' @ replicate n ''completed'')) \<and>
   (\<forall>rows. conn db = Some rows \<and> new_id \<notin> scan_id ` set rows \<longrightarrow>
      snd (get_scan loads new_id (fst (create_scan new_id now tgt stype db))) =
        Inr (Some (ScanDict new_id tgt stype ''running'' now None (JDict []) (JDict []))) \<and>
      status_of new_id (fst (create_scan new_id now tgt stype db)) = Some ''running'') \<and>
   (\<forall>rows row res_text ana_text.
      conn db = Some rows \<and> find (\<lambda>row. scan_id row = sid) rows = Some row \<and>
      dumps_results res = Inr res_text \<and> dumps_analysis ana = Inr ana_text \<longrightarrow>
      (\<exists>rows'.
         conn (fst (save_results dumps_results dumps_analysis now' sid res ana db)) = Some rows' \<and>
         find (\<lambda>row. scan_id row = sid) rows' =
           Some (row\<lparr>status := ''completed'', completed_at := Some now',
                      results := Some res_text, analysis := Some ana_text\<rparr>)) \<and>
      status_of sid (fst (save_results dumps_results dumps_analysis now' sid res ana db))
        = Some ''completed'') \<and>
   (\<forall>rows. conn db' = Some rows \<and> uuid4 app \<notin> scan_id ` set rows \<longrightarrow>
      status_of (uuid4 app) (fst (start_scan app tgt' stype' modules db')) =
        (if isl (snd (start_scan app tgt' stype' modules db')) then Some ''running''
         else Some ''completed''))"
proof (intro conjI allI impI)
  assume "status_of sid db = None"
  then show "\<exists>m n. observed dumps_results dumps_analysis sid calls db
                = replicate m ''running'' @ replicate n ''completed''"
    by (rule observed_absent)
next
  fix rows
  assume h: "conn db = Some rows \<and> new_id \<notin> scan_id ` set rows"
  then show "snd (get_scan loads new_id (fst (create_scan new_id now tgt stype db))) =
        Inr (Some (ScanDict new_id tgt stype ''running'' now None (JDict []) (JDict [])))"
    using get_scan_created[of db rows new_id loads now tgt stype] by blast
  from h show "status_of new_id (fst (create_scan new_id now tgt stype db)) = Some ''running''"
    using status_of_created[of db rows new_id now tgt stype] by blast
next
  fix rows row res_text ana_text
  assume h: "conn db = Some rows \<and> find (\<lambda>row. scan_id row = sid) rows = Some row \<and>
      dumps_results res = Inr res_text \<and> dumps_analysis ana = Inr ana_text"
  then have c: "conn db = Some rows" and r: "find (\<lambda>row. scan_id row = sid) rows = Some row"
    and dr: "dumps_results res = Inr res_text" and da: "dumps_analysis ana = Inr ana_text"
    by blast+
  have saved: "conn (fst (save_results dumps_results dumps_analysis now' sid res ana db))
      = Some (map (\<lambda>row. if scan_id row = sid
                  then row\<lparr>status := ''completed'', completed_at := Some now',
                            results := Some res_text, analysis := Some ana_text\<rparr>
                  else row) rows)"
    by (simp add: save_results_unfold c dr da)
  show "\<exists>rows'.
         conn (fst (save_results dumps_results dumps_analysis now' sid res ana db)) = Some rows' \<and>
         find (\<lambda>row. scan_id row = sid) rows' =
           Some (row\<lparr>status := ''completed'', completed_at := Some now',
                      results := Some res_text, analysis := Some ana_text\<rparr>)"
    using saved find_saved[OF r] by blast
  have "status_of sid db = Some (status row)"
    by (simp add: status_of_def c r)
  then show "status_of sid (fst (save_results dumps_results dumps_analysis now' sid res ana db))
        = Some ''completed''"
    by (simp add: status_of_save dr da)
next
  fix rows
  assume "conn db' = Some rows \<and> uuid4 app \<notin> scan_id ` set rows"
  then show "status_of (uuid4 app) (fst (start_scan app tgt' stype' modules db')) =
        (if isl (snd (start_scan app tgt' stype' modules db')) then Some ''running''
         else Some ''completed'')"
    using start_scan_status[of db' rows app tgt' stype' modules] by blast
qed

theorem scan_status_running_then_completed_witness:
  "status_of ''scan-1'' example_db = None \<and>
   observed (json_dumps_results example_app) (json_dumps_analysis example_app) ''scan-1''
     [CreateScan ''scan-1'' ''2024-01-01T00:00:00'' ''example.com'' ''full'',
      CreateScan ''scan-2'' ''2024-01-01T00:00:01'' ''example.org'' ''quick'',
      SaveResults ''2024-01-01T00:00:02'' ''scan-1'' [(''web'', ''web data'')] example_analysis,
      SaveResults ''2024-01-01T00:00:03'' ''scan-2'' [] example_analysis]
     example_db
     = [''running'', ''running'', ''completed'', ''completed''] \<and>
   (\<exists>m n. [''running'', ''running'', ''completed'', ''completed'']
            = replicate m ''running'' @ replicate n ''completed'')"
proof -
  have absent: "status_of ''scan-1'' example_db = None"
    by (simp add: status_of_def example_db_def)
  have obs: "observed (json_dumps_results example_app) (json_dumps_analysis example_app) ''scan-1''
     [CreateScan ''scan-1'' ''2024-01-01T00:00:00'' ''example.com'' ''full'',
      CreateScan ''scan-2'' ''2024-01-01T00:00:01'' ''example.org'' ''quick'',
      SaveResults ''2024-01-01T00:00:02'' ''scan-1'' [(''web'', ''web data'')] example_analysis,
      SaveResults ''2024-01-01T00:00:03'' ''scan-2'' [] example_analysis]
     example_db
     = [''running'', ''running'', ''completed'', ''completed'']"
    by (simp add: status_of_def create_scan_unfold save_results_unfold example_db_def
        example_app_def)
  from absent
    scan_status_running_then_completed[where sid = "''scan-1''" and db = example_db
      and dumps_results = "json_dumps_results example_app"
      and dumps_analysis = "json_dumps_analysis example_app"
      and calls = "[CreateScan ''scan-1'' ''2024-01-01T00:00:00'' ''example.com'' ''full'',
        CreateScan ''scan-2'' ''2024-01-01T00:00:01'' ''example.org'' ''quick'',
        SaveResults ''2024-01-01T00:00:02'' ''scan-1'' [(''web'', ''web data'')] example_analysis,
        SaveResults ''2024-01-01T00:00:03'' ''scan-2'' [] example_analysis]"]
  have "\<exists>m n. observed (json_dumps_results example_app) (json_dumps_analysis example_app) ''scan-1''
     [CreateScan ''scan-1'' ''2024-01-01T00:00:00'' ''example.com'' ''full'',
      CreateScan ''scan-2'' ''2024-01-01T00:00:01'' ''example.org'' ''quick'',
      SaveResults ''2024-01-01T00:00:02'' ''scan-1'' [(''web'', ''web data'')] example_analysis,
      SaveResults ''2024-01-01T00:00:03'' ''scan-2'' [] example_analysis]
     example_db = replicate m ''running'' @ replicate n ''completed''"
    by blast
  then have "\<exists>m n. [''running'', ''running'', ''completed'', ''completed'']
            = replicate m ''running'' @ replicate n ''completed''"
    by (simp only: obs)
  with absent obs show ?thesis by blast
qed





end
